theory Spec2Isabelle
  imports Complex_Main "HOL-Library.Word"
begin

section \<open>Python values\<close>

text \<open>
  \<open>quarkchain/local.py\<close> is the Local Command Protocol of a node: four handlers behind
  an op-code table, one of them a JSON-RPC channel. The embedding follows the file from
  top to bottom. Python \<open>bytes\<close> are lists of 8-bit words; a Python \<open>str\<close> is a
  \<open>string\<close>, one \<open>char\<close> per code point (code points up to 255, which is enough to
  tell ASCII text from text the \<open>ascii\<close> codec refuses); a Python \<open>int\<close> is an \<open>int\<close>.
\<close>

type_synonym byte = "8 word"
type_synonym bytes = "byte list"

text \<open>
  The exceptions the handlers can meet. A call that raises returns \<open>Inl\<close> of one of
  them, a call that returns a value returns \<open>Inr\<close> of it. \<open>DecodeFailure\<close> is the
  decode failure of the wire schema, whatever exception carries it.
\<close>

datatype pyexc =
    TypeError
  | ValueError
  | AttributeError
  | KeyError
  | UnicodeEncodeError
  | StatisticsError
  | OverflowError
  | DecodeFailure

text \<open>
  \<open>bytes(s, "ascii")\<close>: the code points as bytes, or \<open>UnicodeEncodeError\<close> when one
  of them is 128 or more.
\<close>

definition is_ascii :: "string \<Rightarrow> bool" where
  "is_ascii s = list_all (\<lambda>c. (of_char c :: nat) < 128) s"

definition bytes_ascii :: "string \<Rightarrow> pyexc + bytes" where
  "bytes_ascii s = (if is_ascii s then Inr (map of_char s) else Inl UnicodeEncodeError)"

section \<open>The wire messages\<close>

text \<open>
  Each class of the file is a datatype with the class's constructor and its fields as
  selectors. \<open>Address\<close> and \<open>Transaction\<close> come from \<open>quarkchain.core\<close> and are
  opaque here (type variables).
\<close>

datatype 'addr GetBlockTemplateRequest =
  GetBlockTemplateRequest (address: 'addr) (includeRoot: int) (shardMaskList: "int list")

datatype GetBlockTemplateResponse =
  GetBlockTemplateResponse (isRootBlock: int) (blockData: bytes)

datatype SubmitNewBlockRequest =
  SubmitNewBlockRequest (isRootBlock: int) (blockData: bytes)

datatype SubmitNewBlockResponse =
  SubmitNewBlockResponse (resultCode: int) (resultMessage: bytes)

datatype 'tx NewTransaction =
  NewTransaction (shardId: int) (transaction: 'tx)

datatype 'tx AddNewTransactionListRequest =
  AddNewTransactionListRequest (txList: "'tx NewTransaction list")

datatype AddNewTransactionListResponse =
  AddNewTransactionListResponse (numTxAdded: int)

datatype JsonRpcRequest =
  JsonRpcRequest (jrpcRequest: bytes)

datatype JsonRpcResponse =
  JsonRpcResponse (jrpcResponse: bytes)

section \<open>The wire schema\<close>

text \<open>
  What a \<open>FIELDS\<close> attribute holds: strings, serializers and tuples of such. A
  serializer is one of the objects of \<open>quarkchain.core\<close> that the file names
  (\<open>uint8\<close>, \<open>uint32\<close>, the two length-prefixed serializers), one of its opaque classes
  (\<open>Address\<close>, \<open>Transaction\<close>), or a \<open>Serializable\<close> class of the file, which is given
  by its \<open>FIELDS\<close>.
\<close>

datatype pyobj = Str string | Ser serializer | Tuple "pyobj list"
and serializer =
    uint8
  | uint32
  | PreprendedSizeBytesSerializer nat
  | PreprendedSizeListSerializer nat serializer
  | Opaque string
  | Serializable pyobj

text \<open>
  The \<open>FIELDS\<close> of the nine classes, as the file writes them. A pair of parentheses
  around a single pair is that pair: the \<open>FIELDS\<close> of \<open>AddNewTransactionListResponse\<close>,
  written without the trailing comma, is the tuple of a string and a serializer.
\<close>

definition GetBlockTemplateRequest_FIELDS :: pyobj where
  "GetBlockTemplateRequest_FIELDS =
     Tuple [Tuple [Str ''address'', Ser (Opaque ''Address'')],
            Tuple [Str ''includeRoot'', Ser uint8],
            Tuple [Str ''shardMaskList'', Ser (PreprendedSizeListSerializer 4 uint32)]]"

definition GetBlockTemplateResponse_FIELDS :: pyobj where
  "GetBlockTemplateResponse_FIELDS =
     Tuple [Tuple [Str ''isRootBlock'', Ser uint8],
            Tuple [Str ''blockData'', Ser (PreprendedSizeBytesSerializer 4)]]"

definition SubmitNewBlockRequest_FIELDS :: pyobj where
  "SubmitNewBlockRequest_FIELDS =
     Tuple [Tuple [Str ''isRootBlock'', Ser uint8],
            Tuple [Str ''blockData'', Ser (PreprendedSizeBytesSerializer 4)]]"

definition SubmitNewBlockResponse_FIELDS :: pyobj where
  "SubmitNewBlockResponse_FIELDS =
     Tuple [Tuple [Str ''resultCode'', Ser uint8],
            Tuple [Str ''resultMessage'', Ser (PreprendedSizeBytesSerializer 4)]]"

definition NewTransaction_FIELDS :: pyobj where
  "NewTransaction_FIELDS =
     Tuple [Tuple [Str ''shardId'', Ser uint32],
            Tuple [Str ''transaction'', Ser (Opaque ''Transaction'')]]"

definition AddNewTransactionListRequest_FIELDS :: pyobj where
  "AddNewTransactionListRequest_FIELDS =
     Tuple [Tuple [Str ''txList'',
                   Ser (PreprendedSizeListSerializer 4 (Serializable NewTransaction_FIELDS))]]"

definition AddNewTransactionListResponse_FIELDS :: pyobj where
  "AddNewTransactionListResponse_FIELDS = Tuple [Str ''numTxAdded'', Ser uint32]"

definition JsonRpcRequest_FIELDS :: pyobj where
  "JsonRpcRequest_FIELDS =
     Tuple [Tuple [Str ''jrpcRequest'', Ser (PreprendedSizeBytesSerializer 4)]]"

definition JsonRpcResponse_FIELDS :: pyobj where
  "JsonRpcResponse_FIELDS =
     Tuple [Tuple [Str ''jrpcResponse'', Ser (PreprendedSizeBytesSerializer 4)]]"

text \<open>\<open>OP_SER_MAP\<close>: the class of each op-code, by its \<open>FIELDS\<close>.\<close>

definition OP_SER_MAP :: "(nat \<times> pyobj) list" where
  "OP_SER_MAP =
     [(0, GetBlockTemplateRequest_FIELDS),
      (1, GetBlockTemplateResponse_FIELDS),
      (2, SubmitNewBlockRequest_FIELDS),
      (3, SubmitNewBlockResponse_FIELDS),
      (4, AddNewTransactionListRequest_FIELDS),
      (5, AddNewTransactionListResponse_FIELDS),
      (6, JsonRpcRequest_FIELDS),
      (7, JsonRpcResponse_FIELDS)]"

text \<open>
  The values a serializer takes and returns: an \<open>int\<close>, \<open>bytes\<close>, a \<open>list\<close>, an
  instance of a \<open>Serializable\<close> class (its attributes by name), or an object of an
  opaque class.
\<close>

datatype 'o pyval =
    PyInt int
  | PyBytes bytes
  | PyList "'o pyval list"
  | PyInstance "(string \<times> 'o pyval) list"
  | PyOpaque 'o

text \<open>
  The codecs of the opaque classes, by class name. \<open>opaque_deserialize\<close> returns the
  object and the bytes it did not read, or \<open>None\<close> when the bytes do not decode.
\<close>

record 'o OpaqueCodec =
  opaque_serialize :: "string \<Rightarrow> 'o \<Rightarrow> bytes"
  opaque_deserialize :: "string \<Rightarrow> bytes \<Rightarrow> ('o \<times> bytes) option"

text \<open>
  Modelled from the spec: the serializers \<open>uint8\<close> and \<open>uint32\<close> of \<open>quarkchain.core\<close>,
  which is not under \<open>src/\<close>. The spec's wire schema: a fixed-width unsigned integer is
  encoded big-endian, and a message whose bytes do not cover a declared field is a
  decode failure. An integer that is not an unsigned integer of the width has no
  encoding (\<open>OverflowError\<close>, as Python's \<open>int.to_bytes\<close> raises it).
\<close>

fun big_endian :: "nat \<Rightarrow> nat \<Rightarrow> bytes" where
  "big_endian width v =
     (if width = 0 then [] else big_endian (width - 1) (v div 256) @ [of_nat v])"

definition from_big_endian :: "bytes \<Rightarrow> nat" where
  "from_big_endian bs = foldl (\<lambda>acc b. acc * 256 + unat b) 0 bs"

definition uint_serialize :: "nat \<Rightarrow> int \<Rightarrow> pyexc + bytes" where
  "uint_serialize width v =
     (if 0 \<le> v \<and> v < 256 ^ width then Inr (big_endian width (nat v)) else Inl OverflowError)"

definition uint_deserialize :: "nat \<Rightarrow> bytes \<Rightarrow> pyexc + (int \<times> bytes)" where
  "uint_deserialize width bs =
     (if length bs < width then Inl DecodeFailure
      else Inr (int (from_big_endian (take width bs)), drop width bs))"

text \<open>
  What Python raises in \<open>for name, ser in FIELDS\<close>, followed by a call of a method of
  \<open>ser\<close>, at an item that is not a pair of a string and a serializer: \<open>TypeError\<close> when
  the item is not iterable or the name is not a string, \<open>ValueError\<close> when the item
  does not unpack into two, \<open>AttributeError\<close> when the second part is not a serializer.
  (A string item of two characters unpacks into two strings.)
\<close>

fun unpack_error :: "pyobj \<Rightarrow> pyexc" where
  "unpack_error (Ser ser) = TypeError"
| "unpack_error (Str s) = (if length s = 2 then AttributeError else ValueError)"
| "unpack_error (Tuple [a, Ser ser]) = TypeError"
| "unpack_error (Tuple [a, b]) = AttributeError"
| "unpack_error (Tuple items) = ValueError"

text \<open>
  Modelled from the spec: \<open>Serializable.serialize\<close> and the \<open>serialize\<close> methods of
  the length-prefixed serializers of \<open>quarkchain.core\<close>, which is not under \<open>src/\<close>. The
  spec's wire schema: a message is the concatenation of its fields in declared order,
  with no padding and no tag; a length-prefixed blob is the length as an unsigned
  integer and then the bytes; a length-prefixed list is the count and then the
  elements, each by the element's schema. The declared fields of a class are the items
  of its \<open>FIELDS\<close>, each unpacked into a name and a serializer as every class of the
  file but one writes them.
\<close>

fun serialize_ser :: "'o OpaqueCodec \<Rightarrow> serializer \<Rightarrow> 'o pyval \<Rightarrow> pyexc + bytes"
and serialize_items :: "'o OpaqueCodec \<Rightarrow> serializer \<Rightarrow> 'o pyval list \<Rightarrow> pyexc + bytes"
and serialize_fields ::
  "'o OpaqueCodec \<Rightarrow> pyobj list \<Rightarrow> (string \<times> 'o pyval) list \<Rightarrow> pyexc + bytes" where
  "serialize_ser c uint8 v =
     (case v of PyInt i \<Rightarrow> uint_serialize 1 i | _ \<Rightarrow> Inl AttributeError)"
| "serialize_ser c uint32 v =
     (case v of PyInt i \<Rightarrow> uint_serialize 4 i | _ \<Rightarrow> Inl AttributeError)"
| "serialize_ser c (PreprendedSizeBytesSerializer n) v =
     (case v of
        PyBytes data \<Rightarrow>
          (case uint_serialize n (int (length data)) of
             Inl e \<Rightarrow> Inl e
           | Inr prefix \<Rightarrow> Inr (prefix @ data))
      | _ \<Rightarrow> Inl TypeError)"
| "serialize_ser c (PreprendedSizeListSerializer n ser) v =
     (case v of
        PyList items \<Rightarrow>
          (case uint_serialize n (int (length items)) of
             Inl e \<Rightarrow> Inl e
           | Inr prefix \<Rightarrow>
               (case serialize_items c ser items of
                  Inl e \<Rightarrow> Inl e
                | Inr body \<Rightarrow> Inr (prefix @ body)))
      | _ \<Rightarrow> Inl TypeError)"
| "serialize_ser c (Opaque name) v =
     (case v of PyOpaque x \<Rightarrow> Inr (opaque_serialize c name x) | _ \<Rightarrow> Inl AttributeError)"
| "serialize_ser c (Serializable (Tuple items)) v =
     (case v of PyInstance attrs \<Rightarrow> serialize_fields c items attrs | _ \<Rightarrow> Inl AttributeError)"
| "serialize_ser c (Serializable (Str s)) v = (if s = [] then Inr [] else Inl ValueError)"
| "serialize_ser c (Serializable (Ser ser)) v = Inl TypeError"
| "serialize_items c ser [] = Inr []"
| "serialize_items c ser (v # vs) =
     (case serialize_ser c ser v of
        Inl e \<Rightarrow> Inl e
      | Inr b \<Rightarrow>
          (case serialize_items c ser vs of
             Inl e \<Rightarrow> Inl e
           | Inr bs \<Rightarrow> Inr (b @ bs)))"
| "serialize_fields c [] attrs = Inr []"
| "serialize_fields c (Tuple [Str name, Ser ser] # others) attrs =
     (case map_of attrs name of
        None \<Rightarrow> Inl AttributeError
      | Some v \<Rightarrow>
          (case serialize_ser c ser v of
             Inl e \<Rightarrow> Inl e
           | Inr b \<Rightarrow>
               (case serialize_fields c others attrs of
                  Inl e \<Rightarrow> Inl e
                | Inr bs \<Rightarrow> Inr (b @ bs))))"
| "serialize_fields c (item # others) attrs = Inl (unpack_error item)"

text \<open>
  Modelled from the spec: \<open>Serializable.deserialize\<close> and the \<open>deserialize\<close> methods
  of the length-prefixed serializers of \<open>quarkchain.core\<close>, which is not under \<open>src/\<close>:
  the reading side of the same schema. Each function returns the value and the bytes
  it did not read.
\<close>

fun deserialize_ser ::
  "'o OpaqueCodec \<Rightarrow> serializer \<Rightarrow> bytes \<Rightarrow> pyexc + ('o pyval \<times> bytes)"
and deserialize_items ::
  "'o OpaqueCodec \<Rightarrow> serializer \<Rightarrow> nat \<Rightarrow> bytes \<Rightarrow> pyexc + ('o pyval list \<times> bytes)"
and deserialize_fields ::
  "'o OpaqueCodec \<Rightarrow> pyobj list \<Rightarrow> bytes \<Rightarrow>
   pyexc + ((string \<times> 'o pyval) list \<times> bytes)" where
  "deserialize_ser c uint8 bs =
     (case uint_deserialize 1 bs of Inl e \<Rightarrow> Inl e | Inr (i, rest) \<Rightarrow> Inr (PyInt i, rest))"
| "deserialize_ser c uint32 bs =
     (case uint_deserialize 4 bs of Inl e \<Rightarrow> Inl e | Inr (i, rest) \<Rightarrow> Inr (PyInt i, rest))"
| "deserialize_ser c (PreprendedSizeBytesSerializer n) bs =
     (case uint_deserialize n bs of
        Inl e \<Rightarrow> Inl e
      | Inr (len, rest) \<Rightarrow>
          if length rest < nat len then Inl DecodeFailure
          else Inr (PyBytes (take (nat len) rest), drop (nat len) rest))"
| "deserialize_ser c (PreprendedSizeListSerializer n ser) bs =
     (case uint_deserialize n bs of
        Inl e \<Rightarrow> Inl e
      | Inr (count, rest) \<Rightarrow>
          (case deserialize_items c ser (nat count) rest of
             Inl e \<Rightarrow> Inl e
           | Inr (items, rest') \<Rightarrow> Inr (PyList items, rest')))"
| "deserialize_ser c (Opaque name) bs =
     (case opaque_deserialize c name bs of
        None \<Rightarrow> Inl DecodeFailure
      | Some (x, rest) \<Rightarrow> Inr (PyOpaque x, rest))"
| "deserialize_ser c (Serializable (Tuple items)) bs =
     (case deserialize_fields c items bs of
        Inl e \<Rightarrow> Inl e
      | Inr (kwargs, rest) \<Rightarrow> Inr (PyInstance kwargs, rest))"
| "deserialize_ser c (Serializable (Str s)) bs =
     (if s = [] then Inr (PyInstance [], bs) else Inl ValueError)"
| "deserialize_ser c (Serializable (Ser ser)) bs = Inl TypeError"
| "deserialize_items c ser k bs =
     (if k = 0 then Inr ([], bs)
      else
        (case deserialize_ser c ser bs of
           Inl e \<Rightarrow> Inl e
         | Inr (v, rest) \<Rightarrow>
             (case deserialize_items c ser (k - 1) rest of
                Inl e \<Rightarrow> Inl e
              | Inr (vs, rest') \<Rightarrow> Inr (v # vs, rest'))))"
| "deserialize_fields c [] bs = Inr ([], bs)"
| "deserialize_fields c (Tuple [Str name, Ser ser] # others) bs =
     (case deserialize_ser c ser bs of
        Inl e \<Rightarrow> Inl e
      | Inr (v, rest) \<Rightarrow>
          (case deserialize_fields c others rest of
             Inl e \<Rightarrow> Inl e
           | Inr (kwargs, rest') \<Rightarrow> Inr ((name, v) # kwargs, rest')))"
| "deserialize_fields c (item # others) bs = Inl (unpack_error item)"

section \<open>The collaborators\<close>

text \<open>
  The block headers of \<open>quarkchain.core\<close>, with the attributes the file reads.
\<close>

record RootBlockHeader =
  height :: int
  difficulty :: int

record MinorBlockHeader =
  height :: int
  difficulty :: int
  createTime :: int

text \<open>
  The state engine \<open>self.network.qcState\<close>: its methods as functions of the engine's
  state \<open>'s\<close>; the ones that change the chain return the new state. A failed append
  returns the error description, an accepted one \<open>None\<close>. The enqueue operation
  receives the positional arguments of the call as a list, and may refuse them.
\<close>

record ('s, 'rb, 'mb, 'tx) QuarkChainState =
  findBestBlockToMine :: "'s \<Rightarrow> bool option \<times> ('rb + 'mb) option"
  appendRootBlock :: "'rb \<Rightarrow> 's \<Rightarrow> string option \<times> 's"
  appendMinorBlock :: "'mb \<Rightarrow> 's \<Rightarrow> string option \<times> 's"
  addTransactionToQueue :: "'tx list \<Rightarrow> 's \<Rightarrow> (pyexc + unit) \<times> 's"
  getShardSize :: "'s \<Rightarrow> int"
  getRootBlockTip :: "'s \<Rightarrow> RootBlockHeader"
  getMinorBlockTip :: "'s \<Rightarrow> int \<Rightarrow> MinorBlockHeader"
  getMinorBlockHeaderByHeight :: "'s \<Rightarrow> int \<Rightarrow> int \<Rightarrow> MinorBlockHeader"

text \<open>
  What the file uses of \<open>quarkchain.core\<close>: the block codecs, the transaction list
  of a minor block and the hash of a minor block header. \<open>deserialize\<close> returns the
  block, or \<open>Inl t\<close> when it raises an exception \<open>e\<close> with \<open>"{}".format(e) = t\<close>.
\<close>

record ('rb, 'mb, 'tx) Core =
  RootBlock_deserialize :: "bytes \<Rightarrow> string + 'rb"
  RootBlock_serialize :: "'rb \<Rightarrow> bytes"
  MinorBlock_deserialize :: "bytes \<Rightarrow> string + 'mb"
  MinorBlock_serialize :: "'mb \<Rightarrow> bytes"
  MinorBlock_txList :: "'mb \<Rightarrow> 'tx list"
  getHash :: "MinorBlockHeader \<Rightarrow> bytes"

text \<open>The block store \<open>self.env.db\<close>.\<close>

record 'mb Db =
  getMinorBlockByHash :: "bytes \<Rightarrow> 'mb"

section \<open>The command handlers\<close>

text \<open>
  \<open>block.serialize()\<close> on whatever the engine handed out: the method of the block's
  own class, and \<open>AttributeError\<close> on \<open>None\<close>.
\<close>

definition block_serialize ::
  "('rb, 'mb, 'tx) Core \<Rightarrow> ('rb + 'mb) option \<Rightarrow> pyexc + bytes" where
  "block_serialize core block =
     (case block of
        None \<Rightarrow> Inl AttributeError
      | Some (Inl rBlock) \<Rightarrow> Inr (RootBlock_serialize core rBlock)
      | Some (Inr mBlock) \<Rightarrow> Inr (MinorBlock_serialize core mBlock))"

text \<open>
  \<open>handleGetBlockTemplateRequest\<close>. The request is not read. The two \<open>print\<close> calls
  write a log line and are left out.
\<close>

definition handleGetBlockTemplateRequest ::
  "('rb, 'mb, 'tx) Core \<Rightarrow> ('s, 'rb, 'mb, 'tx) QuarkChainState \<Rightarrow>
   'addr GetBlockTemplateRequest \<Rightarrow> 's \<Rightarrow> pyexc + GetBlockTemplateResponse" where
  "handleGetBlockTemplateRequest core qcState request s =
     (case findBestBlockToMine qcState s of
        (None, block) \<Rightarrow> Inr (GetBlockTemplateResponse 0 [])
      | (Some True, block) \<Rightarrow>
          (case block_serialize core block of
             Inl e \<Rightarrow> Inl e
           | Inr data \<Rightarrow> Inr (GetBlockTemplateResponse 1 data))
      | (Some False, block) \<Rightarrow>
          (case block_serialize core block of
             Inl e \<Rightarrow> Inl e
           | Inr data \<Rightarrow> Inr (GetBlockTemplateResponse 0 data)))"

text \<open>
  The tail both branches of \<open>handleSubmitNewBlockRequest\<close> share: \<open>msg\<close> is what the
  engine's append returned.
\<close>

definition submit_result :: "string option \<Rightarrow> pyexc + SubmitNewBlockResponse" where
  "submit_result msg =
     (case msg of
        None \<Rightarrow> Inr (SubmitNewBlockResponse 0 [])
      | Some m \<Rightarrow>
          (case bytes_ascii m of
             Inl e \<Rightarrow> Inl e
           | Inr b \<Rightarrow> Inr (SubmitNewBlockResponse 1 b)))"

text \<open>
  \<open>handleSubmitNewBlockRequest\<close>. The \<open>except\<close> clause builds the message with
  \<open>bytes("{}".format(e), "ascii")\<close>, outside any \<open>try\<close>: what that call raises leaves
  the handler.
\<close>

definition handleSubmitNewBlockRequest ::
  "('rb, 'mb, 'tx) Core \<Rightarrow> ('s, 'rb, 'mb, 'tx) QuarkChainState \<Rightarrow>
   SubmitNewBlockRequest \<Rightarrow> 's \<Rightarrow> (pyexc + SubmitNewBlockResponse) \<times> 's" where
  "handleSubmitNewBlockRequest core qcState request s =
     (if SubmitNewBlockRequest.isRootBlock request \<noteq> 0 then
        (case RootBlock_deserialize core (SubmitNewBlockRequest.blockData request) of
           Inl t \<Rightarrow> (submit_result (Some t), s)
         | Inr rBlock \<Rightarrow>
             (case appendRootBlock qcState rBlock s of
                (msg, s') \<Rightarrow> (submit_result msg, s')))
      else
        (case MinorBlock_deserialize core (SubmitNewBlockRequest.blockData request) of
           Inl t \<Rightarrow> (submit_result (Some t), s)
         | Inr mBlock \<Rightarrow>
             (case appendMinorBlock qcState mBlock s of
                (msg, s') \<Rightarrow> (submit_result msg, s'))))"

text \<open>
  The loop of \<open>handleAddNewTransactionListRequest\<close>: one call of
  \<open>addTransactionToQueue()\<close> per envelope, with no argument; an exception of the call
  ends the loop and the handler.
\<close>

fun enqueue_loop ::
  "('s, 'rb, 'mb, 'tx) QuarkChainState \<Rightarrow> 'tx NewTransaction list \<Rightarrow> 's \<Rightarrow>
   (pyexc + unit) \<times> 's" where
  "enqueue_loop qcState [] s = (Inr (), s)"
| "enqueue_loop qcState (newTx # rest) s =
     (case addTransactionToQueue qcState [] s of
        (Inl e, s') \<Rightarrow> (Inl e, s')
      | (Inr u, s') \<Rightarrow> enqueue_loop qcState rest s')"

definition handleAddNewTransactionListRequest ::
  "('s, 'rb, 'mb, 'tx) QuarkChainState \<Rightarrow> 'tx AddNewTransactionListRequest \<Rightarrow> 's \<Rightarrow>
   (pyexc + AddNewTransactionListResponse) \<times> 's" where
  "handleAddNewTransactionListRequest qcState request s =
     (case enqueue_loop qcState (txList request) s of
        (Inl e, s') \<Rightarrow> (Inl e, s')
      | (Inr u, s') \<Rightarrow>
          (Inr (AddNewTransactionListResponse (int (length (txList request)))), s'))"

section \<open>JSON values\<close>

text \<open>
  What \<open>json.loads\<close> returns and \<open>json.dumps\<close> takes. A \<open>dict\<close> is the list of its
  items in insertion order. A Python \<open>float\<close> is carried as a rational: floating-point
  rounding is not modelled, and the subtraction \<open>now - sec\<close> of the stats aggregator is
  exact.
\<close>

datatype json =
    JNull
  | JBool bool
  | JInt int
  | JFloat rat
  | JStr string
  | JList "json list"
  | JDict "(string \<times> json) list"

text \<open>
  The Python library, as far as it is not computed here: \<open>json_loads\<close> stands for
  \<open>json.loads(payload.decode("utf8"))\<close> and is \<open>None\<close> when either call raises;
  \<open>float_repr\<close> is \<open>float.__repr__\<close>, which \<open>json.dumps\<close> uses; \<open>time_time k\<close> is what
  the \<open>k\<close>-th call of \<open>time.time()\<close> returns.
\<close>

record PyLib =
  json_loads :: "bytes \<Rightarrow> json option"
  float_repr :: "rat \<Rightarrow> string"
  time_time :: "nat \<Rightarrow> rat"

subsection \<open>\<open>json.dumps\<close> with its default options\<close>

definition digit_char :: "nat \<Rightarrow> char" where
  "digit_char n = ''0123456789abcdef'' ! n"

fun str_nat :: "nat \<Rightarrow> string" where
  "str_nat n =
     (if n < 10 then [digit_char n]
      else str_nat (n div 10) @ [digit_char (n mod 10)])"

definition str_int :: "int \<Rightarrow> string" where
  "str_int i = (if i < 0 then CHR ''-'' # str_nat (nat (- i)) else str_nat (nat i))"

text \<open>
  \<open>py_encode_basestring_ascii\<close>: the quote and the backslash get a backslash, the
  five control characters their letter, every other character outside
  \<open>' '\<close>..\<open>'~'\<close> the form \<open>\uXXXX\<close>.
\<close>

definition escape_char :: "char \<Rightarrow> string" where
  "escape_char c =
     (let n = (of_char c :: nat) in
      if n = 0x22 then [CHR 0x5C, CHR 0x22]
      else if n = 0x5C then [CHR 0x5C, CHR 0x5C]
      else if n = 0x0A then [CHR 0x5C, CHR ''n'']
      else if n = 0x0D then [CHR 0x5C, CHR ''r'']
      else if n = 0x09 then [CHR 0x5C, CHR ''t'']
      else if n = 0x08 then [CHR 0x5C, CHR ''b'']
      else if n = 0x0C then [CHR 0x5C, CHR ''f'']
      else if 0x20 \<le> n \<and> n \<le> 0x7E then [c]
      else [CHR 0x5C, CHR ''u'', CHR ''0'', CHR ''0'',
            digit_char (n div 16), digit_char (n mod 16)])"

definition encode_basestring_ascii :: "string \<Rightarrow> string" where
  "encode_basestring_ascii s = CHR 0x22 # concat (map escape_char s) @ [CHR 0x22]"

fun join :: "string \<Rightarrow> string list \<Rightarrow> string" where
  "join sep [] = []"
| "join sep [x] = x"
| "join sep (x # y # ys) = x @ sep @ join sep (y # ys)"

fun json_dumps :: "(rat \<Rightarrow> string) \<Rightarrow> json \<Rightarrow> string" where
  "json_dumps fr JNull = ''null''"
| "json_dumps fr (JBool b) = (if b then ''true'' else ''false'')"
| "json_dumps fr (JInt i) = str_int i"
| "json_dumps fr (JFloat r) = fr r"
| "json_dumps fr (JStr s) = encode_basestring_ascii s"
| "json_dumps fr (JList xs) = ''['' @ join '', '' (map (json_dumps fr) xs) @ '']''"
| "json_dumps fr (JDict kvs) =
     ''{'' @ join '', ''
       (map (\<lambda>kv. encode_basestring_ascii (fst kv) @ '': '' @ json_dumps fr (snd kv)) kvs)
     @ ''}''"

text \<open>
  \<open>str.encode()\<close>: UTF-8, one byte for a code point below 128 and two for the others
  up to 255.
\<close>

definition utf8_char :: "char \<Rightarrow> bytes" where
  "utf8_char c =
     (let n = (of_char c :: nat) in
      if n < 128 then [of_nat n] else [of_nat (192 + n div 64), of_nat (128 + n mod 64)])"

definition str_encode :: "string \<Rightarrow> bytes" where
  "str_encode s = concat (map utf8_char s)"

subsection \<open>The operators the handler applies to a parsed request\<close>

fun startswith :: "string \<Rightarrow> string \<Rightarrow> bool" where
  "startswith s [] = True"
| "startswith [] (p # ps) = False"
| "startswith (c # s) (p # ps) = (c = p \<and> startswith s ps)"

fun str_contains :: "string \<Rightarrow> string \<Rightarrow> bool" where
  "str_contains sub [] = (sub = [])"
| "str_contains sub (c # s) = (startswith (c # s) sub \<or> str_contains sub s)"

text \<open>
  \<open>key in x\<close> for a \<open>str\<close> key: the keys of a \<open>dict\<close>, the items of a \<open>list\<close>,
  the substrings of a \<open>str\<close>; a number, a boolean and \<open>None\<close> are not iterable.
\<close>

fun py_in :: "string \<Rightarrow> json \<Rightarrow> pyexc + bool" where
  "py_in key (JDict kvs) = Inr (map_of kvs key \<noteq> None)"
| "py_in key (JList xs) = Inr (List.member xs (JStr key))"
| "py_in key (JStr s) = Inr (str_contains key s)"
| "py_in key JNull = Inl TypeError"
| "py_in key (JBool b) = Inl TypeError"
| "py_in key (JInt i) = Inl TypeError"
| "py_in key (JFloat r) = Inl TypeError"

text \<open>
  \<open>x[key]\<close> for a \<open>str\<close> key: the value of a \<open>dict\<close>; a \<open>list\<close> and a \<open>str\<close> take
  integer indices only, the others take none.
\<close>

fun py_getitem :: "json \<Rightarrow> string \<Rightarrow> pyexc + json" where
  "py_getitem (JDict kvs) key = (case map_of kvs key of None \<Rightarrow> Inl KeyError | Some v \<Rightarrow> Inr v)"
| "py_getitem (JList xs) key = Inl TypeError"
| "py_getitem (JStr s) key = Inl TypeError"
| "py_getitem JNull key = Inl TypeError"
| "py_getitem (JBool b) key = Inl TypeError"
| "py_getitem (JInt i) key = Inl TypeError"
| "py_getitem (JFloat r) key = Inl TypeError"

section \<open>The stats aggregator\<close>

text \<open>\<open>range(n)\<close>: empty when \<open>n\<close> is not positive.\<close>

definition py_range :: "int \<Rightarrow> int list" where
  "py_range n = [0..n - 1]"

text \<open>
  The \<open>while\<close> loop of \<open>countMinorBlockHeaderStatsIn\<close> on one shard. Nothing in the loop
  bounds it: it ends when a header is older than the window or has height 0, so the
  function is partial and \<open>None\<close> stands for a walk that never ends.
\<close>

partial_function (option) header_walk ::
  "('s, 'rb, 'mb, 'tx) QuarkChainState \<Rightarrow> 's \<Rightarrow> int \<Rightarrow> rat \<Rightarrow> int \<Rightarrow>
   (MinorBlockHeader \<Rightarrow> int) \<Rightarrow> MinorBlockHeader \<Rightarrow> int \<Rightarrow> int option" where
  "header_walk qcState s shard_id now sec func header metric =
     (if of_int (createTime header) \<ge> now - of_int sec then
        (if height header = 0 then Some (metric + func header)
         else header_walk qcState s shard_id now sec func
                (getMinorBlockHeaderByHeight qcState s shard_id (height header - 1))
                (metric + func header))
      else Some metric)"

text \<open>The \<open>for\<close> loop over the shards, \<open>metric\<close> carried from shard to shard.\<close>

fun shard_loop ::
  "('s, 'rb, 'mb, 'tx) QuarkChainState \<Rightarrow> 's \<Rightarrow> rat \<Rightarrow> int \<Rightarrow>
   (MinorBlockHeader \<Rightarrow> int) \<Rightarrow> int list \<Rightarrow> int \<Rightarrow> int option" where
  "shard_loop qcState s now sec func [] metric = Some metric"
| "shard_loop qcState s now sec func (shard_id # rest) metric =
     (case header_walk qcState s shard_id now sec func
             (getMinorBlockTip qcState s shard_id) metric of
        None \<Rightarrow> None
      | Some metric' \<Rightarrow> shard_loop qcState s now sec func rest metric')"

text \<open>
  \<open>countMinorBlockHeaderStatsIn\<close>: \<open>t\<close> counts the calls of \<open>time.time()\<close> made so
  far; the function makes one and returns the metric with the new count.
\<close>

definition countMinorBlockHeaderStatsIn ::
  "PyLib \<Rightarrow> ('s, 'rb, 'mb, 'tx) QuarkChainState \<Rightarrow> 's \<Rightarrow> nat \<Rightarrow> int \<Rightarrow>
   (MinorBlockHeader \<Rightarrow> int) \<Rightarrow> (int \<times> nat) option" where
  "countMinorBlockHeaderStatsIn py qcState s t sec func =
     (let now = time_time py t in
      case shard_loop qcState s now sec func (py_range (getShardSize qcState s)) 0 of
        None \<Rightarrow> None
      | Some metric \<Rightarrow> Some (metric, Suc t))"

text \<open>
  \<open>countMinorBlockStatsIn\<close> runs the same two loops; inside, \<open>func\<close> is applied to the
  block the store returns for the header's hash.
\<close>

definition countMinorBlockStatsIn ::
  "PyLib \<Rightarrow> ('rb, 'mb, 'tx) Core \<Rightarrow> ('s, 'rb, 'mb, 'tx) QuarkChainState \<Rightarrow> 'mb Db \<Rightarrow>
   's \<Rightarrow> nat \<Rightarrow> int \<Rightarrow> ('mb \<Rightarrow> int) \<Rightarrow> (int \<times> nat) option" where
  "countMinorBlockStatsIn py core qcState db s t sec func =
     (let now = time_time py t in
      case shard_loop qcState s now sec
             (\<lambda>header. func (getMinorBlockByHash db (getHash core header)))
             (py_range (getShardSize qcState s)) 0 of
        None \<Rightarrow> None
      | Some metric \<Rightarrow> Some (metric, Suc t))"

text \<open>
  \<open>statistics.mean\<close> on a list of \<open>int\<close>: \<open>StatisticsError\<close> on the empty list; the
  quotient as an \<open>int\<close> when it is one, as a \<open>float\<close> otherwise (the exact quotient
  here, the nearest \<open>float\<close> in Python).
\<close>

definition mean :: "int list \<Rightarrow> pyexc + json" where
  "mean data =
     (if data = [] then Inl StatisticsError
      else if sum_list data mod int (length data) = 0
      then Inr (JInt (sum_list data div int (length data)))
      else Inr (JFloat (of_int (sum_list data) / of_int (int (length data)))))"

text \<open>
  \<open>jrpcGetStats\<close>: the items of the \<open>dict\<close> display are evaluated in the order they
  are written; the first one that raises ends the method.
\<close>

definition jrpcGetStats ::
  "PyLib \<Rightarrow> ('rb, 'mb, 'tx) Core \<Rightarrow> ('s, 'rb, 'mb, 'tx) QuarkChainState \<Rightarrow> 'mb Db \<Rightarrow>
   's \<Rightarrow> nat \<Rightarrow> json \<Rightarrow> ((pyexc + json) \<times> nat) option" where
  "jrpcGetStats py core qcState db s t params =
     (let shards = py_range (getShardSize qcState s) in
      case mean (map (\<lambda>shard_id. height (getMinorBlockTip qcState s shard_id)) shards) of
        Inl e \<Rightarrow> Some (Inl e, t)
      | Inr avgMinorHeight \<Rightarrow>
      (case mean (map (\<lambda>shard_id. difficulty (getMinorBlockTip qcState s shard_id)) shards) of
        Inl e \<Rightarrow> Some (Inl e, t)
      | Inr avgMinorDifficulty \<Rightarrow>
      (case countMinorBlockHeaderStatsIn py qcState s t 60 (\<lambda>h. 1) of
        None \<Rightarrow> None
      | Some (minorBlocksIn60s, t1) \<Rightarrow>
      (case countMinorBlockHeaderStatsIn py qcState s t1 300 (\<lambda>h. 1) of
        None \<Rightarrow> None
      | Some (minorBlocksIn300s, t2) \<Rightarrow>
      (case countMinorBlockStatsIn py core qcState db s t2 60
              (\<lambda>b. int (length (MinorBlock_txList core b))) of
        None \<Rightarrow> None
      | Some (transactionsIn60s, t3) \<Rightarrow>
      (case countMinorBlockStatsIn py core qcState db s t3 300
              (\<lambda>b. int (length (MinorBlock_txList core b))) of
        None \<Rightarrow> None
      | Some (transactionsIn300s, t4) \<Rightarrow>
          Some (Inr (JDict
            [(''shardSize'', JInt (getShardSize qcState s)),
             (''rootHeight'', JInt (RootBlockHeader.height (getRootBlockTip qcState s))),
             (''rootDifficulty'', JInt (RootBlockHeader.difficulty (getRootBlockTip qcState s))),
             (''avgMinorHeight'', avgMinorHeight),
             (''avgMinorDifficulty'', avgMinorDifficulty),
             (''minorBlocksIn60s'', JInt minorBlocksIn60s),
             (''minorBlocksIn300s'', JInt minorBlocksIn300s),
             (''transactionsIn60s'', JInt transactionsIn60s),
             (''transactionsIn300s'', JInt transactionsIn300s)]), t4)))))))"

section \<open>The JSON-RPC channel\<close>

text \<open>
  \<open>jrpcError\<close>. The \<open>id\<close> item is added only for a \<open>jrpcId\<close> that is not \<open>None\<close>.
\<close>

definition jrpcError :: "PyLib \<Rightarrow> int \<Rightarrow> json option \<Rightarrow> JsonRpcResponse" where
  "jrpcError py errorCode jrpcId =
     (let response = [(''jsonrpc'', JStr ''2.0''), (''error'', JDict [(''code'', JInt errorCode)])];
          response' = (case jrpcId of None \<Rightarrow> response | Some i \<Rightarrow> response @ [(''id'', i)])
      in JsonRpcResponse (str_encode (json_dumps (float_repr py) (JDict response'))))"

text \<open>
  \<open>JRPC_MAP\<close>, and the test \<open>method not in JRPC_MAP\<close> followed by \<open>JRPC_MAP[method]\<close>:
  a \<open>list\<close> and a \<open>dict\<close> are unhashable, and only a \<open>str\<close> equals a key of the table.
\<close>

type_synonym ('s, 'rb, 'mb, 'tx) jrpc_method =
  "PyLib \<Rightarrow> ('rb, 'mb, 'tx) Core \<Rightarrow> ('s, 'rb, 'mb, 'tx) QuarkChainState \<Rightarrow> 'mb Db \<Rightarrow>
   's \<Rightarrow> nat \<Rightarrow> json \<Rightarrow> ((pyexc + json) \<times> nat) option"

definition JRPC_MAP :: "(string \<times> ('s, 'rb, 'mb, 'tx) jrpc_method) list" where
  "JRPC_MAP = [(''getStats'', jrpcGetStats)]"

fun jrpc_lookup :: "json \<Rightarrow> pyexc + ('s, 'rb, 'mb, 'tx) jrpc_method option" where
  "jrpc_lookup (JStr name) = Inr (map_of JRPC_MAP name)"
| "jrpc_lookup (JList xs) = Inl TypeError"
| "jrpc_lookup (JDict kvs) = Inl TypeError"
| "jrpc_lookup JNull = Inr None"
| "jrpc_lookup (JBool b) = Inr None"
| "jrpc_lookup (JInt i) = Inr None"
| "jrpc_lookup (JFloat r) = Inr None"

text \<open>
  \<open>handleJsonRpcRequest\<close> from the method lookup on: the part of the handler that
  runs once the request is known to carry \<open>jsonrpc\<close> and \<open>method\<close>. Only the call of
  the method and the encoding of its result stand inside the \<open>try\<close>.
\<close>

definition jrpc_dispatch ::
  "PyLib \<Rightarrow> ('rb, 'mb, 'tx) Core \<Rightarrow> ('s, 'rb, 'mb, 'tx) QuarkChainState \<Rightarrow> 'mb Db \<Rightarrow>
   json \<Rightarrow> json \<Rightarrow> 's \<Rightarrow> nat \<Rightarrow> ((pyexc + JsonRpcResponse) \<times> nat) option" where
  "jrpc_dispatch py core qcState db jrpc_request meth s t =
     (case jrpc_lookup meth of
        Inl e \<Rightarrow> Some (Inl e, t)
      | Inr None \<Rightarrow> Some (Inr (jrpcError py (- 32601) None), t)
      | Inr (Some handler) \<Rightarrow>
          (case py_in ''params'' jrpc_request of
             Inl e \<Rightarrow> Some (Inl e, t)
           | Inr has_params \<Rightarrow>
               (case (if has_params then py_getitem jrpc_request ''params'' else Inr JNull) of
                  Inl e \<Rightarrow> Some (Inl e, t)
                | Inr params \<Rightarrow>
                    (case handler py core qcState db s t params of
                       None \<Rightarrow> None
                     | Some (Inl e, t') \<Rightarrow> Some (Inr (jrpcError py (- 32603) None), t')
                     | Some (Inr jrpc_response, t') \<Rightarrow>
                         Some (Inr (JsonRpcResponse
                                 (str_encode (json_dumps (float_repr py) jrpc_response))), t')))))"

text \<open>\<open>handleJsonRpcRequest\<close>. The \<open>id\<close> of the request is never read.\<close>

definition handleJsonRpcRequest ::
  "PyLib \<Rightarrow> ('rb, 'mb, 'tx) Core \<Rightarrow> ('s, 'rb, 'mb, 'tx) QuarkChainState \<Rightarrow> 'mb Db \<Rightarrow>
   JsonRpcRequest \<Rightarrow> 's \<Rightarrow> nat \<Rightarrow> ((pyexc + JsonRpcResponse) \<times> nat) option" where
  "handleJsonRpcRequest py core qcState db request s t =
     (case json_loads py (JsonRpcRequest.jrpcRequest request) of
        None \<Rightarrow> Some (Inr (jrpcError py (- 32700) None), t)
      | Some jrpc_request \<Rightarrow>
          (case py_in ''jsonrpc'' jrpc_request of
             Inl e \<Rightarrow> Some (Inl e, t)
           | Inr False \<Rightarrow> Some (Inr (jrpcError py (- 32600) None), t)
           | Inr True \<Rightarrow>
               (case py_getitem jrpc_request ''jsonrpc'' of
                  Inl e \<Rightarrow> Some (Inl e, t)
                | Inr version \<Rightarrow>
                    if version \<noteq> JStr ''2.0'' then Some (Inr (jrpcError py (- 32600) None), t)
                    else
                      (case py_in ''method'' jrpc_request of
                         Inl e \<Rightarrow> Some (Inl e, t)
                       | Inr False \<Rightarrow> Some (Inr (jrpcError py (- 32600) None), t)
                       | Inr True \<Rightarrow>
                           (case py_getitem jrpc_request ''method'' of
                              Inl e \<Rightarrow> Some (Inl e, t)
                            | Inr meth \<Rightarrow>
                                jrpc_dispatch py core qcState db jrpc_request meth s t)))))"

section \<open>The vocabulary of the claims\<close>

text \<open>
  The engine's header store is a chain when, in every shard, the tip has a height that
  is not negative and the header stored at each height below the tip has that height.
\<close>

definition heights_consistent :: "('s, 'rb, 'mb, 'tx) QuarkChainState \<Rightarrow> 's \<Rightarrow> bool" where
  "heights_consistent qcState s =
     list_all
       (\<lambda>shard. 0 \<le> height (getMinorBlockTip qcState s shard)
          \<and> list_all (\<lambda>h. height (getMinorBlockHeaderByHeight qcState s shard h) = h)
               [0..height (getMinorBlockTip qcState s shard) - 1])
       (py_range (getShardSize qcState s))"

text \<open>
  The headers of a shard, walking backward from the tip one height at a time down to
  height 0.
\<close>

definition backward_headers ::
  "('s, 'rb, 'mb, 'tx) QuarkChainState \<Rightarrow> 's \<Rightarrow> int \<Rightarrow> MinorBlockHeader list" where
  "backward_headers qcState s shard =
     getMinorBlockTip qcState s shard #
     map (getMinorBlockHeaderByHeight qcState s shard)
       (rev [0..height (getMinorBlockTip qcState s shard) - 1])"

text \<open>A header is in the window of \<open>T\<close> seconds when its creation time is at least \<open>now - T\<close>.\<close>

definition in_window :: "rat \<Rightarrow> int \<Rightarrow> MinorBlockHeader \<Rightarrow> bool" where
  "in_window now T header = (now - of_int T \<le> of_int (createTime header))"

text \<open>
  The block count of a shard for the window \<open>T\<close>: the headers met on the backward walk
  before the first one that is older than the window.
\<close>

definition blocks_in_window ::
  "('s, 'rb, 'mb, 'tx) QuarkChainState \<Rightarrow> 's \<Rightarrow> rat \<Rightarrow> int \<Rightarrow> int \<Rightarrow> nat" where
  "blocks_in_window qcState s now T shard =
     length (takeWhile (in_window now T) (backward_headers qcState s shard))"






text \<open>The object \<open>{"jsonrpc": "2.0", "error": {"code": c}}\<close>.\<close>

definition error_object :: "int \<Rightarrow> json" where
  "error_object c = JDict [(''jsonrpc'', JStr ''2.0''), (''error'', JDict [(''code'', JInt c)])]"

text \<open>
  The codecs of the opaque classes round-trip: what \<open>deserialize\<close> reads, \<open>serialize\<close>
  writes back.
\<close>

definition opaque_roundtrips :: "'o OpaqueCodec \<Rightarrow> bool" where
  "opaque_roundtrips c =
     (\<forall>name bs x rest. opaque_deserialize c name bs = Some (x, rest) \<longrightarrow>
        opaque_serialize c name x @ rest = bs)"

text \<open>
  The round-trip property of a serializer: whenever bytes decode, the value encodes,
  and to the bytes that were read (followed by the bytes left, the input is back).
\<close>

definition roundtrips :: "'o OpaqueCodec \<Rightarrow> serializer \<Rightarrow> bool" where
  "roundtrips c ser =
     (\<forall>bs v rest. deserialize_ser c ser bs = Inr (v, rest) \<longrightarrow>
        (\<exists>enc. serialize_ser c ser v = Inr enc \<and> enc @ rest = bs))"

text \<open>The items of a \<open>FIELDS\<close> that is written as a tuple of pairs.\<close>

definition named_fields :: "(string \<times> serializer) list \<Rightarrow> pyobj list" where
  "named_fields fs = map (\<lambda>f. Tuple [Str (fst f), Ser (snd f)]) fs"

section \<open>Engines and codecs for the examples\<close>

text \<open>An engine that does nothing: no work to mine, every block accepted, no shard.\<close>

definition idle_engine :: "('s, 'rb, 'mb, 'tx) QuarkChainState" where
  "idle_engine =
     \<lparr> findBestBlockToMine = (\<lambda>s. (None, None)),
       appendRootBlock = (\<lambda>b s. (None, s)),
       appendMinorBlock = (\<lambda>b s. (None, s)),
       addTransactionToQueue = (\<lambda>args s. (Inr (), s)),
       getShardSize = (\<lambda>s. 0),
       getRootBlockTip = (\<lambda>s. \<lparr>RootBlockHeader.height = 0, RootBlockHeader.difficulty = 0\<rparr>),
       getMinorBlockTip = (\<lambda>s shard. \<lparr>height = 0, difficulty = 0, createTime = 0\<rparr>),
       getMinorBlockHeaderByHeight =
         (\<lambda>s shard h. \<lparr>height = 0, difficulty = 0, createTime = 0\<rparr>) \<rparr>"

text \<open>
  A codec in which a block is the bytes it is made of and its transactions are those
  bytes; the empty blob does not decode, and the exception then raised reads \<open>err\<close>.
\<close>

definition bytes_core :: "string \<Rightarrow> (bytes, bytes, byte) Core" where
  "bytes_core err =
     \<lparr> RootBlock_deserialize = (\<lambda>data. if data = [] then Inl err else Inr data),
       RootBlock_serialize = (\<lambda>b. b),
       MinorBlock_deserialize = (\<lambda>data. if data = [] then Inl err else Inr data),
       MinorBlock_serialize = (\<lambda>b. b),
       MinorBlock_txList = (\<lambda>b. b),
       getHash = (\<lambda>h. [of_int (height h)]) \<rparr>"

text \<open>An engine that always offers the same work.\<close>

definition mining_engine ::
  "bool option \<times> (bytes + bytes) option \<Rightarrow> (unit, bytes, bytes, byte) QuarkChainState" where
  "mining_engine best = idle_engine\<lparr>findBestBlockToMine := (\<lambda>s. best)\<rparr>"

text \<open>
  An engine whose state is the list of the blocks it holds: it appends a block, unless
  the block starts with the byte 0, which it rejects with the description \<open>verdict\<close>.
\<close>

definition ledger_engine :: "string \<Rightarrow> (bytes list, bytes, bytes, byte) QuarkChainState" where
  "ledger_engine verdict =
     idle_engine
       \<lparr> appendRootBlock :=
           (\<lambda>b s. if take 1 b = [0] then (Some verdict, s) else (None, s @ [b])),
         appendMinorBlock :=
           (\<lambda>b s. if take 1 b = [0] then (Some verdict, s) else (None, s @ [b])) \<rparr>"

text \<open>
  Modelled from the spec: the enqueue operation of the state engine, which is not
  under \<open>src/\<close>. The spec's state-engine interface gives it as
  \<open>addTransactionToQueue(tx)\<close>, fire-and-forget: a call with one transaction puts it
  at the end of the queue (the engine's state here); a call with any other number of
  arguments is the \<open>TypeError\<close> Python raises for it.
\<close>

definition queue_engine :: "('tx list, 'rb, 'mb, 'tx) QuarkChainState" where
  "queue_engine =
     idle_engine
       \<lparr> addTransactionToQueue :=
           (\<lambda>args queue. case args of
                             [tx] \<Rightarrow> (Inr (), queue @ [tx])
                           | _ \<Rightarrow> (Inl TypeError, queue)) \<rparr>"

text \<open>
  An engine that takes any call of the enqueue operation and records the arguments of
  each call.
\<close>

definition recording_engine :: "('tx list list, 'rb, 'mb, 'tx) QuarkChainState" where
  "recording_engine =
     idle_engine\<lparr>addTransactionToQueue := (\<lambda>args calls. (Inr (), calls @ [args]))\<rparr>"

text \<open>
  An engine whose state is the list of its shards, each the list of its headers from
  height 0 to the tip. The root chain stands at height 7 with difficulty 3.
\<close>

definition chain_engine :: "(MinorBlockHeader list list, 'rb, 'mb, 'tx) QuarkChainState" where
  "chain_engine =
     idle_engine
       \<lparr> getShardSize := (\<lambda>chains. int (length chains)),
         getRootBlockTip :=
           (\<lambda>chains. \<lparr>RootBlockHeader.height = 7, RootBlockHeader.difficulty = 3\<rparr>),
         getMinorBlockTip := (\<lambda>chains shard. last (chains ! nat shard)),
         getMinorBlockHeaderByHeight := (\<lambda>chains shard h. chains ! nat shard ! nat h) \<rparr>"

text \<open>
  One shard of three headers, created at the times 600, 930 and 990: seen from the
  time 1000 they are 400, 70 and 10 seconds old.
\<close>

definition three_blocks :: "MinorBlockHeader list list" where
  "three_blocks =
     [[\<lparr>height = 0, difficulty = 4, createTime = 600\<rparr>,
       \<lparr>height = 1, difficulty = 5, createTime = 930\<rparr>,
       \<lparr>height = 2, difficulty = 6, createTime = 990\<rparr>]]"


text \<open>A store in which the block of a hash is the hash's bytes.\<close>

definition bytes_db :: "bytes Db" where
  "bytes_db = \<lparr>getMinorBlockByHash = (\<lambda>h. h)\<rparr>"

text \<open>
  \<open>json.loads\<close> on the payloads of the examples: each line gives what Python returns
  for the payload; a payload that is not listed (the examples use \<open>not json\<close>) raises.
\<close>

definition example_loads :: "bytes \<Rightarrow> json option" where
  \<open>example_loads =
     map_of
       [(str_encode ''{"jsonrpc": "2.0", "method": "getStats"}'',
           JDict [(''jsonrpc'', JStr ''2.0''), (''method'', JStr ''getStats'')]),
        (str_encode ''{"method":"getStats"}'',
           JDict [(''method'', JStr ''getStats'')]),
        (str_encode ''{"jsonrpc": "2.0"}'',
           JDict [(''jsonrpc'', JStr ''2.0'')]),
        (str_encode ''{"jsonrpc":"2.0","method":"noSuchMethod"}'',
           JDict [(''jsonrpc'', JStr ''2.0''), (''method'', JStr ''noSuchMethod'')]),
        (str_encode ''{"jsonrpc": "2.0", "id": 1, "method": "noSuchMethod"}'',
           JDict [(''jsonrpc'', JStr ''2.0''), (''id'', JInt 1),
                  (''method'', JStr ''noSuchMethod'')])]\<close>

text \<open>
  The library of the examples. The clock starts at 1000 and every call of
  \<open>time.time()\<close> reads one second more; no \<open>float\<close> is printed in the examples.
\<close>

definition example_py :: PyLib where
  "example_py =
     \<lparr> json_loads = example_loads,
       float_repr = (\<lambda>r. []),
       time_time = (\<lambda>k. 1000 + of_nat k) \<rparr>"

text \<open>
  Opaque classes for the examples: an address and a transaction are one byte each.
\<close>

definition byte_codec :: "byte OpaqueCodec" where
  "byte_codec =
     \<lparr> opaque_serialize = (\<lambda>name x. [x]),
       opaque_deserialize =
         (\<lambda>name bs. case bs of [] \<Rightarrow> None | b # rest \<Rightarrow> Some (b, rest)) \<rparr>"

section \<open>Properties of the command handlers\<close>

lemma bytes_ascii_ok: "is_ascii t \<Longrightarrow> bytes_ascii t = Inr (map of_char t)"
  by (simp add: bytes_ascii_def)

lemmas example_defs =
  idle_engine_def bytes_core_def mining_engine_def ledger_engine_def is_ascii_def

text \<open>
  C7. \<open>handleGetBlockTemplateRequest\<close> returns a response in each of the three answers
  of the engine: with no candidate the response has \<open>isRootBlock = 0\<close> and no bytes;
  with a root-block candidate it has \<open>isRootBlock = 1\<close> and the serialized block; with a
  minor-block candidate it has \<open>isRootBlock = 0\<close> and the serialized block. In none of
  them does the handler raise (the result is an \<open>Inr\<close>).
\<close>

theorem handleGetBlockTemplateRequest_maps:
  "(findBestBlockToMine qcState s = (None, block) \<longrightarrow>
      handleGetBlockTemplateRequest core qcState request s =
        Inr (GetBlockTemplateResponse 0 []))
   \<and> (findBestBlockToMine qcState s = (Some True, Some (Inl rBlock)) \<longrightarrow>
      handleGetBlockTemplateRequest core qcState request s =
        Inr (GetBlockTemplateResponse 1 (RootBlock_serialize core rBlock)))
   \<and> (findBestBlockToMine qcState s = (Some False, Some (Inr mBlock)) \<longrightarrow>
      handleGetBlockTemplateRequest core qcState request s =
        Inr (GetBlockTemplateResponse 0 (MinorBlock_serialize core mBlock)))"
  by (simp add: handleGetBlockTemplateRequest_def block_serialize_def)

theorem handleGetBlockTemplateRequest_maps_witness:
  "handleGetBlockTemplateRequest (bytes_core ''short'') (mining_engine (None, None))
      (GetBlockTemplateRequest (0::nat) 1 []) () = Inr (GetBlockTemplateResponse 0 [])
   \<and> handleGetBlockTemplateRequest (bytes_core ''short'')
        (mining_engine (Some True, Some (Inl [1, 2])))
        (GetBlockTemplateRequest (0::nat) 1 []) () = Inr (GetBlockTemplateResponse 1 [1, 2])
   \<and> handleGetBlockTemplateRequest (bytes_core ''short'')
        (mining_engine (Some False, Some (Inr [3])))
        (GetBlockTemplateRequest (0::nat) 1 []) () = Inr (GetBlockTemplateResponse 0 [3])"
proof -
  let ?core = "bytes_core ''short''"
  let ?request = "GetBlockTemplateRequest (0::nat) 1 []"
  note T = handleGetBlockTemplateRequest_maps
  have a: "handleGetBlockTemplateRequest ?core (mining_engine (None, None)) ?request () =
             Inr (GetBlockTemplateResponse 0 [])"
    using T [where core = ?core and qcState = "mining_engine (None, None)" and s = "()"
               and request = ?request and block = None]
    by (simp add: example_defs)
  have b: "handleGetBlockTemplateRequest ?core (mining_engine (Some True, Some (Inl [1, 2])))
             ?request () = Inr (GetBlockTemplateResponse 1 [1, 2])"
    using T [where core = ?core and qcState = "mining_engine (Some True, Some (Inl [1, 2]))"
               and s = "()" and request = ?request and rBlock = "[1, 2]"]
    by (simp add: example_defs)
  have c: "handleGetBlockTemplateRequest ?core (mining_engine (Some False, Some (Inr [3])))
             ?request () = Inr (GetBlockTemplateResponse 0 [3])"
    using T [where core = ?core and qcState = "mining_engine (Some False, Some (Inr [3]))"
               and s = "()" and request = ?request and mBlock = "[3]"]
    by (simp add: example_defs)
  from a b c show ?thesis by blast
qed

text \<open>
  C2, as amended. \<open>handleSubmitNewBlockRequest\<close>, for the root and for the minor kind:
  when the bytes do not decode and the text of the decoding error is ASCII, the
  response has \<open>resultCode = 1\<close> and that text as its message, and the engine is not
  called; when the engine accepts the decoded block, the response has \<open>resultCode = 0\<close>
  and an empty message; when the engine rejects it with an ASCII description, the
  response has \<open>resultCode = 1\<close> and the description, byte for byte, as its message.
\<close>

theorem handleSubmitNewBlockRequest_responses:
  "(SubmitNewBlockRequest.isRootBlock request \<noteq> 0
      \<and> RootBlock_deserialize core (SubmitNewBlockRequest.blockData request) = Inl t
      \<and> is_ascii t \<longrightarrow>
    handleSubmitNewBlockRequest core qcState request s =
      (Inr (SubmitNewBlockResponse 1 (map of_char t)), s))
   \<and> (SubmitNewBlockRequest.isRootBlock request = 0
      \<and> MinorBlock_deserialize core (SubmitNewBlockRequest.blockData request) = Inl t
      \<and> is_ascii t \<longrightarrow>
    handleSubmitNewBlockRequest core qcState request s =
      (Inr (SubmitNewBlockResponse 1 (map of_char t)), s))
   \<and> (SubmitNewBlockRequest.isRootBlock request \<noteq> 0
      \<and> RootBlock_deserialize core (SubmitNewBlockRequest.blockData request) = Inr rBlock
      \<and> appendRootBlock qcState rBlock s = (None, s') \<longrightarrow>
    handleSubmitNewBlockRequest core qcState request s =
      (Inr (SubmitNewBlockResponse 0 []), s'))
   \<and> (SubmitNewBlockRequest.isRootBlock request = 0
      \<and> MinorBlock_deserialize core (SubmitNewBlockRequest.blockData request) = Inr mBlock
      \<and> appendMinorBlock qcState mBlock s = (None, s') \<longrightarrow>
    handleSubmitNewBlockRequest core qcState request s =
      (Inr (SubmitNewBlockResponse 0 []), s'))
   \<and> (SubmitNewBlockRequest.isRootBlock request \<noteq> 0
      \<and> RootBlock_deserialize core (SubmitNewBlockRequest.blockData request) = Inr rBlock
      \<and> appendRootBlock qcState rBlock s = (Some msg, s') \<and> is_ascii msg \<longrightarrow>
    handleSubmitNewBlockRequest core qcState request s =
      (Inr (SubmitNewBlockResponse 1 (map of_char msg)), s'))
   \<and> (SubmitNewBlockRequest.isRootBlock request = 0
      \<and> MinorBlock_deserialize core (SubmitNewBlockRequest.blockData request) = Inr mBlock
      \<and> appendMinorBlock qcState mBlock s = (Some msg, s') \<and> is_ascii msg \<longrightarrow>
    handleSubmitNewBlockRequest core qcState request s =
      (Inr (SubmitNewBlockResponse 1 (map of_char msg)), s'))"
  by (simp add: handleSubmitNewBlockRequest_def submit_result_def bytes_ascii_ok)

theorem handleSubmitNewBlockRequest_responses_witness:
  "handleSubmitNewBlockRequest (bytes_core ''too short'') (ledger_engine ''stale'')
      (SubmitNewBlockRequest 1 []) [] =
        (Inr (SubmitNewBlockResponse 1 (map of_char ''too short'')), [])
   \<and> handleSubmitNewBlockRequest (bytes_core ''too short'') (ledger_engine ''stale'')
      (SubmitNewBlockRequest 0 []) [] =
        (Inr (SubmitNewBlockResponse 1 (map of_char ''too short'')), [])
   \<and> handleSubmitNewBlockRequest (bytes_core ''too short'') (ledger_engine ''stale'')
      (SubmitNewBlockRequest 1 [5]) [] = (Inr (SubmitNewBlockResponse 0 []), [[5]])
   \<and> handleSubmitNewBlockRequest (bytes_core ''too short'') (ledger_engine ''stale'')
      (SubmitNewBlockRequest 0 [5]) [] = (Inr (SubmitNewBlockResponse 0 []), [[5]])
   \<and> handleSubmitNewBlockRequest (bytes_core ''too short'') (ledger_engine ''stale'')
      (SubmitNewBlockRequest 1 [0]) [] =
        (Inr (SubmitNewBlockResponse 1 (map of_char ''stale'')), [])
   \<and> handleSubmitNewBlockRequest (bytes_core ''too short'') (ledger_engine ''stale'')
      (SubmitNewBlockRequest 0 [0]) [] =
        (Inr (SubmitNewBlockResponse 1 (map of_char ''stale'')), [])"
proof -
  let ?core = "bytes_core ''too short''"
  let ?qc = "ledger_engine ''stale''"
  note T = handleSubmitNewBlockRequest_responses
  have a: "handleSubmitNewBlockRequest ?core ?qc (SubmitNewBlockRequest 1 []) [] =
             (Inr (SubmitNewBlockResponse 1 (map of_char ''too short'')), [])"
    using T [where core = ?core and qcState = ?qc and request = "SubmitNewBlockRequest 1 []"
               and s = "[]" and t = "''too short''"]
    by (simp add: example_defs)
  have b: "handleSubmitNewBlockRequest ?core ?qc (SubmitNewBlockRequest 0 []) [] =
             (Inr (SubmitNewBlockResponse 1 (map of_char ''too short'')), [])"
    using T [where core = ?core and qcState = ?qc and request = "SubmitNewBlockRequest 0 []"
               and s = "[]" and t = "''too short''"]
    by (simp add: example_defs)
  have c: "handleSubmitNewBlockRequest ?core ?qc (SubmitNewBlockRequest 1 [5]) [] =
             (Inr (SubmitNewBlockResponse 0 []), [[5]])"
    using T [where core = ?core and qcState = ?qc and request = "SubmitNewBlockRequest 1 [5]"
               and s = "[]" and rBlock = "[5]" and s' = "[[5]]"]
    by (simp add: example_defs)
  have d: "handleSubmitNewBlockRequest ?core ?qc (SubmitNewBlockRequest 0 [5]) [] =
             (Inr (SubmitNewBlockResponse 0 []), [[5]])"
    using T [where core = ?core and qcState = ?qc and request = "SubmitNewBlockRequest 0 [5]"
               and s = "[]" and mBlock = "[5]" and s' = "[[5]]"]
    by (simp add: example_defs)
  have e: "handleSubmitNewBlockRequest ?core ?qc (SubmitNewBlockRequest 1 [0]) [] =
             (Inr (SubmitNewBlockResponse 1 (map of_char ''stale'')), [])"
    using T [where core = ?core and qcState = ?qc and request = "SubmitNewBlockRequest 1 [0]"
               and s = "[]" and rBlock = "[0]" and s' = "[]" and msg = "''stale''"]
    by (simp add: example_defs)
  have f: "handleSubmitNewBlockRequest ?core ?qc (SubmitNewBlockRequest 0 [0]) [] =
             (Inr (SubmitNewBlockResponse 1 (map of_char ''stale'')), [])"
    using T [where core = ?core and qcState = ?qc and request = "SubmitNewBlockRequest 0 [0]"
               and s = "[]" and mBlock = "[0]" and s' = "[]" and msg = "''stale''"]
    by (simp add: example_defs)
  from a b c d e f show ?thesis by blast
qed

text \<open>
  C2 as stated fails in two places. An engine that rejects a root block with the
  description \<open>rejet\<close> followed by the code point 233 makes \<open>bytes(msg, "ascii")\<close>
  raise, and the exception leaves the handler: there is no response. A decoder whose
  exception has an empty text yields \<open>resultCode = 1\<close> with an empty message.
\<close>

theorem handleSubmitNewBlockRequest_counterexample:
  "handleSubmitNewBlockRequest (bytes_core ''too short'')
      (ledger_engine [CHR ''r'', CHR ''e'', CHR ''j'', CHR ''e'', CHR ''t'', CHR 0xE9])
      (SubmitNewBlockRequest 1 [0]) [] = (Inl UnicodeEncodeError, [])
   \<and> handleSubmitNewBlockRequest (bytes_core []) (ledger_engine ''stale'')
      (SubmitNewBlockRequest 1 []) [] = (Inr (SubmitNewBlockResponse 1 []), [])"
  by (simp add: handleSubmitNewBlockRequest_def submit_result_def bytes_ascii_def example_defs)

text \<open>
  What \<open>handleAddNewTransactionListRequest\<close> does with the engine depends on the
  number of envelopes only, and a response, when one is built, counts them.
\<close>

lemma enqueue_loop_ignores_transactions:
  "length xs = length ys \<Longrightarrow> enqueue_loop qcState xs s = enqueue_loop qcState ys s"
proof (induction xs ys arbitrary: s rule: list_induct2)
  case Nil
  then show ?case by simp
next
  case (Cons x xs y ys)
  then show ?case by (simp split: prod.splits sum.splits)
qed

lemma numTxAdded_is_length:
  "handleAddNewTransactionListRequest qcState request s = (Inr response, s') \<Longrightarrow>
   numTxAdded response = int (length (txList request))"
  by (auto simp: handleAddNewTransactionListRequest_def split: prod.splits sum.splits)

text \<open>
  C1 at a request of one envelope. The handler calls the enqueue operation with no
  argument. Against the engine of the spec's interface the call is a \<open>TypeError\<close>:
  nothing is queued and no response is built. An engine that takes the call sees one
  call with an empty argument list, and \<open>numTxAdded\<close> is 1: the transaction 7 of the
  envelope reaches the engine in neither case.
\<close>

theorem handleAddNewTransactionListRequest_forwards_nothing:
  "handleAddNewTransactionListRequest
      (queue_engine :: (nat list, unit, unit, nat) QuarkChainState)
      (AddNewTransactionListRequest [NewTransaction 0 7]) [] = (Inl TypeError, [])
   \<and> handleAddNewTransactionListRequest
      (recording_engine :: (nat list list, unit, unit, nat) QuarkChainState)
      (AddNewTransactionListRequest [NewTransaction 0 7]) [] =
        (Inr (AddNewTransactionListResponse 1), [[]])"
  by (simp add: handleAddNewTransactionListRequest_def queue_engine_def recording_engine_def
                idle_engine_def)

section \<open>Properties of the stats aggregator\<close>

lemma rev_upto_from_0: "0 \<le> (h::int) \<Longrightarrow> rev [0..h] = h # rev [0..h - 1]"
  by (simp add: upto_rec2)

text \<open>
  The \<open>while\<close> loop, started at a header of height \<open>n\<close> above consistent heights:
  it returns, and has added \<open>func\<close> of every header met before the first one that is
  older than the window. Induction on the height.
\<close>

lemma header_walk_descends:
  assumes "height header = int n"
    and "list_all (\<lambda>h. height (getMinorBlockHeaderByHeight qcState s shard h) = h) [0..int n - 1]"
  shows "header_walk qcState s shard now sec func header metric =
     Some (metric + sum_list (map func (takeWhile (in_window now sec)
             (header # map (getMinorBlockHeaderByHeight qcState s shard) (rev [0..int n - 1])))))"
  using assms
proof (induction n arbitrary: header metric)
  case 0
  then show ?case by (subst header_walk.simps) (simp add: in_window_def)
next
  case (Suc n)
  define nxt where "nxt = getMinorBlockHeaderByHeight qcState s shard (height header - 1)"
  have hh: "height header - 1 = int n" using Suc.prems(1) by simp
  have hn: "height nxt = int n"
    using Suc.prems(2) hh by (simp add: nxt_def list_all_iff)
  have wf: "list_all (\<lambda>h. height (getMinorBlockHeaderByHeight qcState s shard h) = h)
              [0..int n - 1]"
    using Suc.prems(2) by (simp add: list_all_iff)
  have IH: "header_walk qcState s shard now sec func nxt m =
     Some (m + sum_list (map func (takeWhile (in_window now sec)
             (nxt # map (getMinorBlockHeaderByHeight qcState s shard) (rev [0..int n - 1])))))"
    for m
    by (rule Suc.IH [OF hn wf])
  have r: "map (getMinorBlockHeaderByHeight qcState s shard) (rev [0..int (Suc n) - 1]) =
           nxt # map (getMinorBlockHeaderByHeight qcState s shard) (rev [0..int n - 1])"
    using rev_upto_from_0 [of "int n"] hh by (simp add: nxt_def)
  have nz: "height header \<noteq> 0" using Suc.prems(1) by simp
  show ?case
  proof (cases "in_window now sec header")
    case True
    then have c: "of_int (createTime header) \<ge> now - of_int sec"
      by (simp add: in_window_def)
    have "header_walk qcState s shard now sec func header metric =
          header_walk qcState s shard now sec func nxt (metric + func header)"
      by (subst header_walk.simps) (simp only: c nz nxt_def if_True if_False)
    also have "\<dots> = Some (metric + func header + sum_list (map func
             (takeWhile (in_window now sec)
               (nxt # map (getMinorBlockHeaderByHeight qcState s shard) (rev [0..int n - 1])))))"
      by (rule IH)
    finally show ?thesis
      using True by (simp only: r takeWhile.simps if_True list.map sum_list.Cons add.assoc)
  next
    case False
    then have c: "\<not> of_int (createTime header) \<ge> now - of_int sec"
      by (simp add: in_window_def)
    have "header_walk qcState s shard now sec func header metric = Some metric"
      by (subst header_walk.simps) (simp only: c if_False)
    then show ?thesis using False by simp
  qed
qed

lemma header_walk_from_tip:
  assumes "0 \<le> height (getMinorBlockTip qcState s shard)"
    and "list_all (\<lambda>h. height (getMinorBlockHeaderByHeight qcState s shard h) = h)
           [0..height (getMinorBlockTip qcState s shard) - 1]"
  shows "header_walk qcState s shard now sec func (getMinorBlockTip qcState s shard) metric =
     Some (metric + sum_list (map func (takeWhile (in_window now sec)
             (backward_headers qcState s shard))))"
proof -
  obtain n where n: "height (getMinorBlockTip qcState s shard) = int n"
    using assms(1) nonneg_int_cases by blast
  show ?thesis
    using header_walk_descends [OF n, of qcState s shard now sec func metric] assms(2)
    by (simp add: backward_headers_def n)
qed

lemma shard_loop_sums:
  assumes "list_all
       (\<lambda>shard. 0 \<le> height (getMinorBlockTip qcState s shard)
          \<and> list_all (\<lambda>h. height (getMinorBlockHeaderByHeight qcState s shard h) = h)
               [0..height (getMinorBlockTip qcState s shard) - 1]) shards"
  shows "shard_loop qcState s now sec func shards metric =
     Some (metric + sum_list (map (\<lambda>shard. sum_list (map func (takeWhile (in_window now sec)
                                   (backward_headers qcState s shard)))) shards))"
  using assms
proof (induction shards arbitrary: metric)
  case Nil
  then show ?case by simp
next
  case (Cons shard shards)
  then show ?case by (simp add: header_walk_from_tip add.assoc)
qed

lemma sum_list_ones: "sum_list (map (\<lambda>h. 1) xs) = int (length xs)"
  by (induction xs) simp_all

lemmas chain_defs =
  chain_engine_def idle_engine_def three_blocks_def example_py_def bytes_core_def
  bytes_db_def upto.simps

text \<open>
  C6. Over a header store that is a chain, \<open>countMinorBlockHeaderStatsIn\<close> with the
  counting function 1 returns, and its result is the sum over the shards of the number
  of headers met on the backward walk from the tip before the first header older than
  \<open>now - T\<close> (or down to height 0 when there is none). \<open>now\<close> is one reading of the
  clock, \<open>time_time py t\<close>, for all shards and headers, and the call count goes from
  \<open>t\<close> to \<open>t + 1\<close>.
\<close>

theorem countMinorBlockHeaderStatsIn_counts:
  "heights_consistent qcState s \<Longrightarrow>
   countMinorBlockHeaderStatsIn py qcState s t T (\<lambda>h. 1) =
     Some (sum_list (map (\<lambda>shard. int (blocks_in_window qcState s (time_time py t) T shard))
                      (py_range (getShardSize qcState s))), Suc t)"
  unfolding heights_consistent_def countMinorBlockHeaderStatsIn_def
  by (simp add: shard_loop_sums sum_list_ones blocks_in_window_def)

text \<open>
  The chain of the claim: one shard, heights 2, 1, 0 created 10, 70 and 400 seconds
  before the reading 1000 of the clock. The window of 60 seconds counts 1 block, the
  window of 300 seconds counts 2.
\<close>

theorem countMinorBlockHeaderStatsIn_counts_witness:
  "heights_consistent
     (chain_engine :: (MinorBlockHeader list list, bytes, bytes, byte) QuarkChainState)
     three_blocks
   \<and> countMinorBlockHeaderStatsIn example_py
        (chain_engine :: (MinorBlockHeader list list, bytes, bytes, byte) QuarkChainState)
        three_blocks 0 60 (\<lambda>h. 1) = Some (1, 1)
   \<and> countMinorBlockHeaderStatsIn example_py
        (chain_engine :: (MinorBlockHeader list list, bytes, bytes, byte) QuarkChainState)
        three_blocks 0 300 (\<lambda>h. 1) = Some (2, 1)"
proof -
  let ?qc = "chain_engine :: (MinorBlockHeader list list, bytes, bytes, byte) QuarkChainState"
  have ok: "heights_consistent ?qc three_blocks"
    by (simp add: heights_consistent_def py_range_def chain_defs)
  have w60: "countMinorBlockHeaderStatsIn example_py ?qc three_blocks 0 60 (\<lambda>h. 1) =
               Some (1, 1)"
    using countMinorBlockHeaderStatsIn_counts [OF ok, of example_py 0 60]
    by (simp add: blocks_in_window_def backward_headers_def in_window_def py_range_def
                  chain_defs)
  have w300: "countMinorBlockHeaderStatsIn example_py ?qc three_blocks 0 300 (\<lambda>h. 1) =
                Some (2, 1)"
    using countMinorBlockHeaderStatsIn_counts [OF ok, of example_py 0 300]
    by (simp add: blocks_in_window_def backward_headers_def in_window_def py_range_def
                  chain_defs)
  from ok w60 w300 show ?thesis by blast
qed









section \<open>Properties of the JSON-RPC channel\<close>

lemma jrpcError_payload:
  "jrpcError py c None =
     JsonRpcResponse (str_encode (json_dumps (float_repr py) (error_object c)))"
  by (simp add: jrpcError_def error_object_def)


lemma jrpc_lookup_Some:
  "jrpc_lookup meth = Inr (Some handler) \<Longrightarrow> handler = jrpcGetStats"
  by (cases meth) (auto simp: JRPC_MAP_def split: if_splits)

lemma jrpc_dispatch_response:
  fixes qcState :: "('s, 'rb, 'mb, 'tx) QuarkChainState"
  assumes "jrpc_dispatch py core qcState db req meth s t = Some (Inr response, t')"
  shows "response = jrpcError py (- 32601) None \<or> response = jrpcError py (- 32603) None
     \<or> (\<exists>params result.
          jrpcGetStats py core qcState db s t params = Some (Inr result, t')
          \<and> response = JsonRpcResponse (str_encode (json_dumps (float_repr py) result)))"
proof (cases "jrpc_lookup meth :: pyexc + ('s, 'rb, 'mb, 'tx) jrpc_method option")
  case (Inl e)
  with assms show ?thesis by (simp add: jrpc_dispatch_def)
next
  case (Inr found)
  show ?thesis
  proof (cases found)
    case None
    with Inr assms show ?thesis by (simp add: jrpc_dispatch_def)
  next
    case (Some handler)
    have h: "handler = jrpcGetStats" using Inr Some jrpc_lookup_Some by blast
    from assms Inr Some h show ?thesis
      by (auto simp: jrpc_dispatch_def split: sum.splits option.splits prod.splits)
  qed
qed

lemmas jrpc_example_defs =
  handleJsonRpcRequest_def jrpc_dispatch_def JRPC_MAP_def jrpcError_def
  example_py_def example_loads_def str_encode_def utf8_char_def
  encode_basestring_ascii_def escape_char_def str_int_def digit_char_def

lemmas stats_example_defs =
  jrpcGetStats_def countMinorBlockHeaderStatsIn_def countMinorBlockStatsIn_def mean_def
  py_range_def header_walk.simps chain_engine_def idle_engine_def three_blocks_def
  bytes_core_def bytes_db_def upto.simps

text \<open>
  C3 at the request \<open>{"jsonrpc": "2.0", "method": "getStats"}\<close>, over the chain of
  three blocks. The method succeeds, and the payload of the response is the stats
  object itself: it has no \<open>result\<close> field (and no \<open>jsonrpc\<close> field), although the
  error responses of the same handler are built as JSON-RPC 2.0 objects.
\<close>

theorem handleJsonRpcRequest_getStats_payload:
  \<open>handleJsonRpcRequest example_py (bytes_core ''short'')
       (chain_engine :: (MinorBlockHeader list list, bytes, bytes, byte) QuarkChainState)
       bytes_db
       (JsonRpcRequest (str_encode ''{"jsonrpc": "2.0", "method": "getStats"}''))
       three_blocks 0 =
     Some (Inr (JsonRpcResponse (str_encode
       ''{"shardSize": 1, "rootHeight": 7, "rootDifficulty": 3, "avgMinorHeight": 2, "avgMinorDifficulty": 6, "minorBlocksIn60s": 1, "minorBlocksIn300s": 2, "transactionsIn60s": 1, "transactionsIn300s": 2}'')),
       4)\<close>
  by (simp add: jrpc_example_defs stats_example_defs)

text \<open>
  C4, as amended. Every response of \<open>handleJsonRpcRequest\<close> is either the encoding of
  the result of the method, or the encoding of the object
  \<open>{"jsonrpc": "2.0", "error": {"code": c}}\<close> with \<open>c\<close> one of the four error codes.
  The error object has these two fields and no other: no \<open>id\<close>, whatever the request
  carried.
\<close>

theorem handleJsonRpcRequest_error_object:
  fixes qcState :: "('s, 'rb, 'mb, 'tx) QuarkChainState"
  assumes a: "handleJsonRpcRequest py core qcState db request s t = Some (Inr response, t')"
  shows "(\<exists>c. (c = - 32700 \<or> c = - 32600 \<or> c = - 32601 \<or> c = - 32603)
        \<and> response =
            JsonRpcResponse (str_encode (json_dumps (float_repr py) (error_object c))))
   \<or> (\<exists>params result.
        jrpcGetStats py core qcState db s t params = Some (Inr result, t')
        \<and> response = JsonRpcResponse (str_encode (json_dumps (float_repr py) result)))"
proof -
  have "response = jrpcError py (- 32700) None \<or> response = jrpcError py (- 32600) None
     \<or> (\<exists>req meth. jrpc_dispatch py core qcState db req meth s t = Some (Inr response, t'))"
    using a unfolding handleJsonRpcRequest_def
    by (auto split: option.splits sum.splits bool.splits if_splits)
  then consider
      (parse) "response = jrpcError py (- 32700) None"
    | (invalid) "response = jrpcError py (- 32600) None"
    | (dispatch) req meth where
        "jrpc_dispatch py core qcState db req meth s t = Some (Inr response, t')"
    by blast
  then show ?thesis
  proof cases
    case parse
    then show ?thesis by (auto simp: jrpcError_payload)
  next
    case invalid
    then show ?thesis by (auto simp: jrpcError_payload)
  next
    case dispatch
    from jrpc_dispatch_response [OF dispatch] show ?thesis
      by (auto simp: jrpcError_payload)
  qed
qed

theorem handleJsonRpcRequest_error_object_witness:
  \<open>handleJsonRpcRequest example_py (bytes_core ''short'')
       (chain_engine :: (MinorBlockHeader list list, bytes, bytes, byte) QuarkChainState)
       bytes_db (JsonRpcRequest (str_encode ''{"method":"getStats"}'')) three_blocks 0 =
     Some (Inr (JsonRpcResponse
             (str_encode (json_dumps (float_repr example_py) (error_object (- 32600))))), 0)
   \<and> str_encode (json_dumps (float_repr example_py) (error_object (- 32600))) =
       str_encode ''{"jsonrpc": "2.0", "error": {"code": -32600}}''\<close>
proof -
  let ?qc = "chain_engine :: (MinorBlockHeader list list, bytes, bytes, byte) QuarkChainState"
  let ?request = \<open>JsonRpcRequest (str_encode ''{"method":"getStats"}'')\<close>
  let ?response = \<open>JsonRpcResponse (str_encode ''{"jsonrpc": "2.0", "error": {"code": -32600}}'')\<close>
  have run: "handleJsonRpcRequest example_py (bytes_core ''short'') ?qc bytes_db ?request
               three_blocks 0 = Some (Inr ?response, 0)"
    by (simp add: jrpc_example_defs)
  have obj: \<open>str_encode (json_dumps (float_repr example_py) (error_object (- 32600))) =
       str_encode ''{"jsonrpc": "2.0", "error": {"code": -32600}}''\<close>
    by (simp add: error_object_def jrpc_example_defs)
  from handleJsonRpcRequest_error_object [OF run] run obj show ?thesis
    by simp
qed

text \<open>
  C4 as stated fails at a request that carries an \<open>id\<close>: the request
  \<open>{"jsonrpc": "2.0", "id": 1, "method": "noSuchMethod"}\<close> is answered with the error
  object for -32601 without the \<open>id\<close>. (\<open>jrpcError\<close> would add it, were it passed.)
\<close>

theorem handleJsonRpcRequest_id_counterexample:
  \<open>json_loads example_py
       (str_encode ''{"jsonrpc": "2.0", "id": 1, "method": "noSuchMethod"}'') =
     Some (JDict [(''jsonrpc'', JStr ''2.0''), (''id'', JInt 1),
                  (''method'', JStr ''noSuchMethod'')])
   \<and> handleJsonRpcRequest example_py (bytes_core ''short'')
       (chain_engine :: (MinorBlockHeader list list, bytes, bytes, byte) QuarkChainState)
       bytes_db
       (JsonRpcRequest (str_encode ''{"jsonrpc": "2.0", "id": 1, "method": "noSuchMethod"}''))
       three_blocks 0 =
     Some (Inr (JsonRpcResponse
             (str_encode ''{"jsonrpc": "2.0", "error": {"code": -32601}}'')), 0)
   \<and> jrpcError example_py (- 32601) (Some (JInt 1)) =
       JsonRpcResponse (str_encode ''{"jsonrpc": "2.0", "error": {"code": -32601}, "id": 1}'')\<close>
  by (simp add: jrpc_example_defs)







section \<open>Properties of the wire schema\<close>

text \<open>
  C8 at \<open>AddNewTransactionListResponse\<close>. Its \<open>FIELDS\<close>, written without the
  trailing comma, is not a tuple of pairs: the first declared field is the string
  \<open>numTxAdded\<close>, which does not unpack into a name and a serializer. No byte string
  decodes as the class, and the response the handler builds does not encode. With
  the comma (\<open>FIELDS\<close> a tuple holding that one pair), the bytes 0, 0, 0, 3 decode to
  \<open>numTxAdded = 3\<close> and encode back to the same bytes.
\<close>

theorem AddNewTransactionListResponse_no_codec:
  "deserialize_ser c (Serializable AddNewTransactionListResponse_FIELDS) bs = Inl ValueError
   \<and> serialize_ser c (Serializable AddNewTransactionListResponse_FIELDS)
        (PyInstance [(''numTxAdded'', PyInt n)]) = Inl ValueError
   \<and> deserialize_ser c (Serializable (Tuple [AddNewTransactionListResponse_FIELDS]))
        [0, 0, 0, 3] = Inr (PyInstance [(''numTxAdded'', PyInt 3)], [])
   \<and> serialize_ser c (Serializable (Tuple [AddNewTransactionListResponse_FIELDS]))
        (PyInstance [(''numTxAdded'', PyInt 3)]) = Inr [0, 0, 0, 3]"
  by (simp add: AddNewTransactionListResponse_FIELDS_def uint_deserialize_def
                uint_serialize_def from_big_endian_def)

text \<open>A big-endian number of \<open>n\<close> bytes is below \<open>256 ^ n\<close>.\<close>

lemma from_big_endian_bound: "from_big_endian bs < 256 ^ length bs"
proof -
  have "foldl (\<lambda>acc b. acc * 256 + unat b) a bs < (a + 1) * 256 ^ length bs" for a
  proof (induction bs arbitrary: a)
    case Nil
    then show ?case by simp
  next
    case (Cons b bs)
    have "unat b < 256" using unsigned_less [of b] by simp
    then have "a * 256 + unat b + 1 \<le> (a + 1) * 256" by simp
    then have le: "(a * 256 + unat b + 1) * 256 ^ length bs \<le> (a + 1) * 256 * 256 ^ length bs"
      by (rule mult_le_mono1)
    have "foldl (\<lambda>acc b. acc * 256 + unat b) a (b # bs) =
          foldl (\<lambda>acc b. acc * 256 + unat b) (a * 256 + unat b) bs"
      by simp
    also have "\<dots> < (a * 256 + unat b + 1) * 256 ^ length bs"
      by (rule Cons)
    also note le
    also have "(a + 1) * 256 * 256 ^ length bs = (a + 1) * 256 ^ length (b # bs)"
      by (simp add: algebra_simps)
    finally show ?case .
  qed
  from this [of 0] show ?thesis by (simp add: from_big_endian_def)
qed

lemma uint_deserialize_range:
  "uint_deserialize width bs = Inr (v, rest) \<Longrightarrow> 0 \<le> v \<and> v < 256 ^ width"
proof -
  assume a: "uint_deserialize width bs = Inr (v, rest)"
  then have l: "width \<le> length bs" and v: "v = int (from_big_endian (take width bs))"
    by (auto simp: uint_deserialize_def split: if_splits)
  have "from_big_endian (take width bs) < 256 ^ length (take width bs)"
    by (rule from_big_endian_bound)
  with l have "from_big_endian (take width bs) < 256 ^ width" by (simp add: min_absorb2)
  then have "int (from_big_endian (take width bs)) < 256 ^ width"
    by (metis of_nat_less_iff of_nat_numeral of_nat_power)
  with v show ?thesis by simp
qed

text \<open>
  C9, as amended. The \<open>shardId\<close> of a \<open>NewTransaction\<close> is declared \<open>uint32\<close>: every
  envelope that decodes carries a shard id from 0 to \<open>2 ^ 32 - 1\<close>, and an envelope
  with a negative shard id does not encode.
\<close>

theorem NewTransaction_shardId_unsigned:
  "(deserialize_ser c (Serializable NewTransaction_FIELDS) bs = Inr (PyInstance kwargs, rest)
      \<longrightarrow> (\<exists>v. map_of kwargs ''shardId'' = Some (PyInt v) \<and> 0 \<le> v \<and> v < 2 ^ 32))
   \<and> (v < 0 \<longrightarrow>
        serialize_ser c (Serializable NewTransaction_FIELDS)
          (PyInstance [(''shardId'', PyInt v), (''transaction'', PyOpaque tx)]) =
        Inl OverflowError)"
proof (intro conjI impI)
  assume a: "deserialize_ser c (Serializable NewTransaction_FIELDS) bs =
               Inr (PyInstance kwargs, rest)"
  then obtain v r1 where u: "uint_deserialize 4 bs = Inr (v, r1)"
    and k: "map_of kwargs ''shardId'' = Some (PyInt v)"
    by (auto simp: NewTransaction_FIELDS_def split: sum.splits option.splits prod.splits)
  from uint_deserialize_range [OF u] have "0 \<le> v \<and> v < 2 ^ 32" by simp
  with k show "\<exists>v. map_of kwargs ''shardId'' = Some (PyInt v) \<and> 0 \<le> v \<and> v < 2 ^ 32"
    by blast
next
  assume "v < 0"
  then show "serialize_ser c (Serializable NewTransaction_FIELDS)
          (PyInstance [(''shardId'', PyInt v), (''transaction'', PyOpaque tx)]) =
        Inl OverflowError"
    by (simp add: NewTransaction_FIELDS_def uint_serialize_def)
qed

theorem NewTransaction_shardId_unsigned_witness:
  "deserialize_ser byte_codec (Serializable NewTransaction_FIELDS) [0, 0, 0, 5, 9] =
     Inr (PyInstance [(''shardId'', PyInt 5), (''transaction'', PyOpaque 9)], [])
   \<and> map_of [(''shardId'', PyInt 5), (''transaction'', PyOpaque (9 :: byte))] ''shardId'' =
       Some (PyInt 5)
   \<and> (0 :: int) \<le> 5 \<and> (5 :: int) < 2 ^ 32
   \<and> serialize_ser byte_codec (Serializable NewTransaction_FIELDS)
        (PyInstance [(''shardId'', PyInt (- 1)), (''transaction'', PyOpaque 9)]) =
      Inl OverflowError"
proof -
  have d: "deserialize_ser byte_codec (Serializable NewTransaction_FIELDS) [0, 0, 0, 5, 9] =
     Inr (PyInstance [(''shardId'', PyInt 5), (''transaction'', PyOpaque 9)], [])"
    by (simp add: NewTransaction_FIELDS_def uint_deserialize_def from_big_endian_def
                  byte_codec_def)
  note T = NewTransaction_shardId_unsigned
             [where c = byte_codec and bs = "[0, 0, 0, 5, 9]" and rest = "[]"
                and kwargs = "[(''shardId'', PyInt 5), (''transaction'', PyOpaque 9)]"
                and v = "- 1" and tx = 9]
  from T d show ?thesis by simp
qed

text \<open>
  C9 as stated fails: a negative shard id is not representable on the wire. The
  envelope with \<open>shardId = -1\<close> has no encoding, and the four bytes 255 that a signed
  field would read as -1 decode to 4294967295.
\<close>

theorem NewTransaction_negative_shardId_counterexample:
  "serialize_ser byte_codec (Serializable NewTransaction_FIELDS)
     (PyInstance [(''shardId'', PyInt (- 1)), (''transaction'', PyOpaque 9)]) =
     Inl OverflowError
   \<and> deserialize_ser byte_codec (Serializable NewTransaction_FIELDS)
       [255, 255, 255, 255, 9] =
     Inr (PyInstance [(''shardId'', PyInt 4294967295), (''transaction'', PyOpaque 9)], [])"
  by (simp add: NewTransaction_FIELDS_def uint_serialize_def uint_deserialize_def
                from_big_endian_def byte_codec_def)

subsection \<open>The round trip of the classes with well-formed fields\<close>

text \<open>\<open>big_endian\<close> writes back what \<open>from_big_endian\<close> read.\<close>

lemma from_big_endian_snoc:
  "from_big_endian (bs @ [b]) = from_big_endian bs * 256 + unat b"
  by (simp add: from_big_endian_def)

lemma byte_of_nat_low: "(of_nat (n * 256 + unat b) :: byte) = b"
proof -
  have z: "(256 :: byte) = 0" by simp
  have "(of_nat (n * 256 + unat b) :: byte) = of_nat n * 256 + b" by simp
  then show ?thesis by (simp only: z mult_zero_right add_0_left)
qed

lemma big_endian_from_big_endian:
  "big_endian (length bs) (from_big_endian bs) = bs"
proof (induction bs rule: rev_induct)
  case Nil
  show ?case by (subst big_endian.simps) simp
next
  case (snoc b bs)
  have d: "(from_big_endian bs * 256 + unat b) div 256 = from_big_endian bs"
    using unsigned_less [of b, where 'a = nat] by simp
  have "big_endian (length (bs @ [b])) (from_big_endian (bs @ [b])) =
        big_endian (length bs) ((from_big_endian bs * 256 + unat b) div 256)
          @ [of_nat (from_big_endian bs * 256 + unat b)]"
    by (subst big_endian.simps) (simp del: big_endian.simps add: from_big_endian_snoc)
  also have "\<dots> = bs @ [b]"
    by (simp only: d byte_of_nat_low snoc)
  finally show ?case .
qed

lemma uint_roundtrip:
  assumes "uint_deserialize width bs = Inr (v, rest)"
  shows "uint_serialize width v = Inr (take width bs) \<and> take width bs @ rest = bs"
proof -
  from assms have l: "width \<le> length bs" and v: "v = int (from_big_endian (take width bs))"
    and r: "rest = drop width bs"
    by (auto simp: uint_deserialize_def split: if_splits)
  have rng: "0 \<le> v \<and> v < 256 ^ width" using uint_deserialize_range [OF assms] .
  have len: "length (take width bs) = width" using l by simp
  have "big_endian width (nat v) = take width bs"
    using big_endian_from_big_endian [of "take width bs"] len v
    by (simp del: big_endian.simps)
  with rng r show ?thesis by (simp del: big_endian.simps add: uint_serialize_def)
qed

lemma roundtrips_uint8: "roundtrips c uint8"
  unfolding roundtrips_def
  by (auto dest!: uint_roundtrip split: sum.splits prod.splits)

lemma roundtrips_uint32: "roundtrips c uint32"
  unfolding roundtrips_def
  by (auto dest!: uint_roundtrip split: sum.splits prod.splits)

lemma roundtrips_bytes: "roundtrips c (PreprendedSizeBytesSerializer n)"
proof -
  have "\<exists>enc. serialize_ser c (PreprendedSizeBytesSerializer n) v = Inr enc \<and> enc @ rest = bs"
    if a: "deserialize_ser c (PreprendedSizeBytesSerializer n) bs = Inr (v, rest)"
    for bs v rest
  proof -
    from a obtain len r1 where u: "uint_deserialize n bs = Inr (len, r1)"
      and l: "nat len \<le> length r1"
      and v: "v = PyBytes (take (nat len) r1)" and r: "rest = drop (nat len) r1"
      by (auto split: sum.splits prod.splits if_splits)
    from uint_deserialize_range [OF u] have pos: "0 \<le> len" by simp
    from uint_roundtrip [OF u] have s: "uint_serialize n len = Inr (take n bs)"
      and b: "take n bs @ r1 = bs" by simp_all
    have "int (length (take (nat len) r1)) = len" using l pos by simp
    then have "serialize_ser c (PreprendedSizeBytesSerializer n) v =
               Inr (take n bs @ take (nat len) r1)"
      using s v by simp
    moreover have "(take n bs @ take (nat len) r1) @ rest = bs"
      using b r by (metis append.assoc append_take_drop_id)
    ultimately show ?thesis by blast
  qed
  then show ?thesis unfolding roundtrips_def by blast
qed

lemma roundtrips_opaque: "opaque_roundtrips c \<Longrightarrow> roundtrips c (Opaque name)"
  unfolding roundtrips_def opaque_roundtrips_def
  by (auto split: option.splits)

lemma deserialize_items_0: "deserialize_items c ser 0 bs = Inr ([], bs)"
  by (subst deserialize_items.simps) simp

lemma deserialize_items_Suc:
  "deserialize_items c ser (Suc k) bs =
     (case deserialize_ser c ser bs of
        Inl e \<Rightarrow> Inl e
      | Inr (v, rest) \<Rightarrow>
          (case deserialize_items c ser k rest of
             Inl e \<Rightarrow> Inl e
           | Inr (vs, rest') \<Rightarrow> Inr (v # vs, rest')))"
  by (subst deserialize_items.simps, subst diff_Suc_1) (simp del: deserialize_items.simps)

lemma items_roundtrip:
  assumes rt: "roundtrips c ser"
  shows "deserialize_items c ser k bs = Inr (vs, rest) \<Longrightarrow>
         length vs = k \<and> (\<exists>enc. serialize_items c ser vs = Inr enc \<and> enc @ rest = bs)"
proof (induction k arbitrary: bs vs)
  case 0
  then show ?case by (simp del: deserialize_items.simps add: deserialize_items_0)
next
  case (Suc k)
  from Suc.prems obtain v r1 vs' where
    d: "deserialize_ser c ser bs = Inr (v, r1)"
    and ds: "deserialize_items c ser k r1 = Inr (vs', rest)"
    and vs: "vs = v # vs'"
    by (auto simp del: deserialize_items.simps simp add: deserialize_items_Suc
             split: sum.splits prod.splits)
  from rt d obtain e1 where e1: "serialize_ser c ser v = Inr e1" and b1: "e1 @ r1 = bs"
    unfolding roundtrips_def by blast
  from Suc.IH [OF ds] obtain e2 where l: "length vs' = k"
    and e2: "serialize_items c ser vs' = Inr e2" and b2: "e2 @ rest = r1"
    by blast
  have "serialize_items c ser vs = Inr (e1 @ e2)" using vs e1 e2 by simp
  moreover have "(e1 @ e2) @ rest = bs" using b1 b2 by simp
  ultimately show ?case using l vs by auto
qed

lemma roundtrips_list:
  assumes rt: "roundtrips c ser"
  shows "roundtrips c (PreprendedSizeListSerializer n ser)"
proof -
  have "\<exists>enc. serialize_ser c (PreprendedSizeListSerializer n ser) v = Inr enc \<and> enc @ rest = bs"
    if a: "deserialize_ser c (PreprendedSizeListSerializer n ser) bs = Inr (v, rest)"
    for bs v rest
  proof -
    from a obtain count r1 items where u: "uint_deserialize n bs = Inr (count, r1)"
      and ds: "deserialize_items c ser (nat count) r1 = Inr (items, rest)"
      and v: "v = PyList items"
      by (auto simp del: deserialize_items.simps split: sum.splits prod.splits)
    from uint_deserialize_range [OF u] have pos: "0 \<le> count" by simp
    from uint_roundtrip [OF u] have s: "uint_serialize n count = Inr (take n bs)"
      and b: "take n bs @ r1 = bs" by simp_all
    from items_roundtrip [OF rt ds] obtain e2 where l: "length items = nat count"
      and e2: "serialize_items c ser items = Inr e2" and b2: "e2 @ rest = r1"
      by blast
    have "int (length items) = count" using l pos by simp
    then have "serialize_ser c (PreprendedSizeListSerializer n ser) v = Inr (take n bs @ e2)"
      using s v e2 by simp
    moreover have "(take n bs @ e2) @ rest = bs" using b b2 by simp
    ultimately show ?thesis by blast
  qed
  then show ?thesis unfolding roundtrips_def by blast
qed

lemma fields_roundtrip:
  assumes "deserialize_fields c (named_fields fs) bs = Inr (kw, rest)"
    and "list_all (\<lambda>f. roundtrips c (snd f)) fs"
  shows "map fst kw = map fst fs
     \<and> (\<forall>attrs. list_all (\<lambda>a. map_of attrs (fst a) = Some (snd a)) kw \<longrightarrow>
          (\<exists>enc. serialize_fields c (named_fields fs) attrs = Inr enc \<and> enc @ rest = bs))"
  using assms
proof (induction fs arbitrary: bs kw)
  case Nil
  then show ?case by (simp add: named_fields_def)
next
  case (Cons f fs)
  obtain name ser where f: "f = (name, ser)" by (cases f)
  from Cons.prems(1) obtain v r1 kw' where
    d: "deserialize_ser c ser bs = Inr (v, r1)"
    and ds: "deserialize_fields c (named_fields fs) r1 = Inr (kw', rest)"
    and kw: "kw = (name, v) # kw'"
    by (auto simp: named_fields_def f split: sum.splits prod.splits)
  from Cons.prems(2) have rt: "roundtrips c ser" and rts: "list_all (\<lambda>f. roundtrips c (snd f)) fs"
    by (simp_all add: f)
  from rt d obtain e1 where e1: "serialize_ser c ser v = Inr e1" and b1: "e1 @ r1 = bs"
    unfolding roundtrips_def by blast
  from Cons.IH [OF ds rts] have names: "map fst kw' = map fst fs"
    and rest: "\<forall>attrs. list_all (\<lambda>a. map_of attrs (fst a) = Some (snd a)) kw' \<longrightarrow>
          (\<exists>enc. serialize_fields c (named_fields fs) attrs = Inr enc \<and> enc @ rest = r1)"
    by blast+
  have "\<exists>enc. serialize_fields c (named_fields (f # fs)) attrs = Inr enc \<and> enc @ rest = bs"
    if a: "list_all (\<lambda>a. map_of attrs (fst a) = Some (snd a)) kw" for attrs
  proof -
    from a kw have m: "map_of attrs name = Some v"
      and a': "list_all (\<lambda>a. map_of attrs (fst a) = Some (snd a)) kw'"
      by simp_all
    from rest a' obtain e2 where e2: "serialize_fields c (named_fields fs) attrs = Inr e2"
      and b2: "e2 @ rest = r1" by blast
    have "serialize_fields c (named_fields (f # fs)) attrs = Inr (e1 @ e2)"
      using m e1 e2 by (simp add: named_fields_def f)
    moreover have "(e1 @ e2) @ rest = bs" using b1 b2 by simp
    ultimately show ?thesis by blast
  qed
  with names kw f show ?case by simp
qed

lemma roundtrips_Serializable:
  assumes "list_all (\<lambda>f. roundtrips c (snd f)) fs" and "distinct (map fst fs)"
  shows "roundtrips c (Serializable (Tuple (named_fields fs)))"
proof -
  have "\<exists>enc. serialize_ser c (Serializable (Tuple (named_fields fs))) v = Inr enc
          \<and> enc @ rest = bs"
    if a: "deserialize_ser c (Serializable (Tuple (named_fields fs))) bs = Inr (v, rest)"
    for bs v rest
  proof -
    from a obtain kw where d: "deserialize_fields c (named_fields fs) bs = Inr (kw, rest)"
      and v: "v = PyInstance kw"
      by (auto split: sum.splits prod.splits)
    from fields_roundtrip [OF d assms(1)] have names: "map fst kw = map fst fs"
      and enc: "\<forall>attrs. list_all (\<lambda>a. map_of attrs (fst a) = Some (snd a)) kw \<longrightarrow>
          (\<exists>enc. serialize_fields c (named_fields fs) attrs = Inr enc \<and> enc @ rest = bs)"
      by blast+
    have "distinct (map fst kw)" using names assms(2) by simp
    then have "list_all (\<lambda>a. map_of kw (fst a) = Some (snd a)) kw"
      by (simp add: list_all_iff)
    with enc obtain e where "serialize_fields c (named_fields fs) kw = Inr e" and "e @ rest = bs"
      by blast
    then show ?thesis using v by simp
  qed
  then show ?thesis unfolding roundtrips_def by blast
qed

lemma roundtrips_NewTransaction:
  assumes "opaque_roundtrips c"
  shows "roundtrips c (Serializable NewTransaction_FIELDS)"
proof -
  have eq: "NewTransaction_FIELDS =
          Tuple (named_fields [(''shardId'', uint32), (''transaction'', Opaque ''Transaction'')])"
    by (simp add: NewTransaction_FIELDS_def named_fields_def)
  show ?thesis
    unfolding eq
    by (rule roundtrips_Serializable)
       (simp_all add: roundtrips_uint32 roundtrips_opaque [OF assms])
qed

text \<open>
  The seven classes whose \<open>FIELDS\<close> is a tuple of pairs round-trip, over opaque codecs
  that do: \<open>encode(decode(bytes)) == bytes\<close> for every byte string that decodes.
  \<open>AddNewTransactionListResponse\<close> is the eighth.
\<close>

theorem wire_schema_roundtrip:
  assumes "opaque_roundtrips c"
  shows "roundtrips c (Serializable GetBlockTemplateRequest_FIELDS)"
    and "roundtrips c (Serializable GetBlockTemplateResponse_FIELDS)"
    and "roundtrips c (Serializable SubmitNewBlockRequest_FIELDS)"
    and "roundtrips c (Serializable SubmitNewBlockResponse_FIELDS)"
    and "roundtrips c (Serializable AddNewTransactionListRequest_FIELDS)"
    and "roundtrips c (Serializable JsonRpcRequest_FIELDS)"
    and "roundtrips c (Serializable JsonRpcResponse_FIELDS)"
proof -
  have e0: "GetBlockTemplateRequest_FIELDS =
          Tuple (named_fields [(''address'', Opaque ''Address''), (''includeRoot'', uint8),
                   (''shardMaskList'', PreprendedSizeListSerializer 4 uint32)])"
    by (simp add: GetBlockTemplateRequest_FIELDS_def named_fields_def)
  show "roundtrips c (Serializable GetBlockTemplateRequest_FIELDS)"
    unfolding e0
    by (rule roundtrips_Serializable)
       (simp_all add: roundtrips_uint8 roundtrips_uint32 roundtrips_list
                      roundtrips_opaque [OF assms])
  have e1: "GetBlockTemplateResponse_FIELDS =
          Tuple (named_fields [(''isRootBlock'', uint8),
                   (''blockData'', PreprendedSizeBytesSerializer 4)])"
    by (simp add: GetBlockTemplateResponse_FIELDS_def named_fields_def)
  show "roundtrips c (Serializable GetBlockTemplateResponse_FIELDS)"
    unfolding e1
    by (rule roundtrips_Serializable) (simp_all add: roundtrips_uint8 roundtrips_bytes)
  have e2: "SubmitNewBlockRequest_FIELDS =
          Tuple (named_fields [(''isRootBlock'', uint8),
                   (''blockData'', PreprendedSizeBytesSerializer 4)])"
    by (simp add: SubmitNewBlockRequest_FIELDS_def named_fields_def)
  show "roundtrips c (Serializable SubmitNewBlockRequest_FIELDS)"
    unfolding e2
    by (rule roundtrips_Serializable) (simp_all add: roundtrips_uint8 roundtrips_bytes)
  have e3: "SubmitNewBlockResponse_FIELDS =
          Tuple (named_fields [(''resultCode'', uint8),
                   (''resultMessage'', PreprendedSizeBytesSerializer 4)])"
    by (simp add: SubmitNewBlockResponse_FIELDS_def named_fields_def)
  show "roundtrips c (Serializable SubmitNewBlockResponse_FIELDS)"
    unfolding e3
    by (rule roundtrips_Serializable) (simp_all add: roundtrips_uint8 roundtrips_bytes)
  have e4: "AddNewTransactionListRequest_FIELDS =
          Tuple (named_fields
                   [(''txList'',
                     PreprendedSizeListSerializer 4 (Serializable NewTransaction_FIELDS))])"
    by (simp add: AddNewTransactionListRequest_FIELDS_def named_fields_def)
  show "roundtrips c (Serializable AddNewTransactionListRequest_FIELDS)"
    unfolding e4
    by (rule roundtrips_Serializable)
       (simp_all add: roundtrips_list roundtrips_NewTransaction [OF assms])
  have e6: "JsonRpcRequest_FIELDS =
          Tuple (named_fields [(''jrpcRequest'', PreprendedSizeBytesSerializer 4)])"
    by (simp add: JsonRpcRequest_FIELDS_def named_fields_def)
  show "roundtrips c (Serializable JsonRpcRequest_FIELDS)"
    unfolding e6
    by (rule roundtrips_Serializable) (simp_all add: roundtrips_bytes)
  have e7: "JsonRpcResponse_FIELDS =
          Tuple (named_fields [(''jrpcResponse'', PreprendedSizeBytesSerializer 4)])"
    by (simp add: JsonRpcResponse_FIELDS_def named_fields_def)
  show "roundtrips c (Serializable JsonRpcResponse_FIELDS)"
    unfolding e7
    by (rule roundtrips_Serializable) (simp_all add: roundtrips_bytes)
qed

lemma byte_codec_roundtrips: "opaque_roundtrips byte_codec"
  by (auto simp: opaque_roundtrips_def byte_codec_def split: list.splits)

end
